theory Spec2Isabelle
  imports Complex_Main
begin

section \<open>JavaScript values\<close>

text \<open>
  The layout module \<^verbatim>\<open>lore-of-the-repo/src/utils/cityBuilder.js\<close> computes with numbers, strings
  and plain objects. A number is modelled as a real or \<open>NaN\<close>: the rounding of IEEE doubles is
  abstracted, and the infinities are left out because no operation of the module divides by
  zero or overflows (its divisors are the literals 15 and 180 and the length of a list that is
  being iterated). A value returned by a property lookup is a number, \<open>undefined\<close>, or a
  reference to a built-in object inherited through the prototype chain.
\<close>

datatype number = Num real | NaN

datatype jsval = Undefined | Number number | Builtin string

text \<open>\<open>ToNumber\<close>: \<open>undefined\<close>, functions and plain objects all convert to \<open>NaN\<close>.\<close>

fun toNumber :: "jsval \<Rightarrow> number" where
  "toNumber (Number n) = n"
| "toNumber Undefined = NaN"
| "toNumber (Builtin b) = NaN"

text \<open>A binary arithmetic operator: \<open>NaN\<close> is absorbing.\<close>

fun arith :: "(real \<Rightarrow> real \<Rightarrow> real) \<Rightarrow> number \<Rightarrow> number \<Rightarrow> number" where
  "arith f (Num x) (Num y) = Num (f x y)"
| "arith f NaN b = NaN"
| "arith f a NaN = NaN"

text \<open>\<open>a > c\<close> after \<open>ToNumber\<close>: every comparison with \<open>NaN\<close> is false.\<close>

fun greater :: "number \<Rightarrow> real \<Rightarrow> bool" where
  "greater (Num x) c = (c < x)"
| "greater NaN c = False"

text \<open>
  \<open>v || d\<close> on an optional number and on an optional string: \<open>undefined\<close>, \<open>0\<close> and the
  empty string are falsy.
\<close>

fun or_number :: "nat option \<Rightarrow> nat \<Rightarrow> nat" where
  "or_number None d = d"
| "or_number (Some n) d = (if n = 0 then d else n)"

fun or_string :: "string option \<Rightarrow> string \<Rightarrow> string" where
  "or_string None d = d"
| "or_string (Some s) d = (if s = [] then d else s)"

subsection \<open>Strings\<close>

text \<open>
  A string is a list of code units; \<open>char\<close> covers the code units 0 to 255, and
  \<open>charCodeAt\<close> is \<open>of_char\<close>. \<open>toLowerCase\<close> on that range maps A to Z and the Latin-1
  capitals (192 to 222 except the multiplication sign 215) 32 code units up.
\<close>

definition charCodeAt :: "char \<Rightarrow> nat" where
  "charCodeAt ch = of_char ch"

definition lower_char :: "char \<Rightarrow> char" where
  "lower_char c =
     (let n = charCodeAt c
      in if (65 \<le> n \<and> n \<le> 90) \<or> (192 \<le> n \<and> n \<le> 222 \<and> n \<noteq> 215) then char_of (n + 32) else c)"

definition toLowerCase :: "string \<Rightarrow> string" where
  "toLowerCase s = map lower_char s"

text \<open>\<open>s.includes(c)\<close> for a one-character needle.\<close>

definition js_includes :: "string \<Rightarrow> char \<Rightarrow> bool" where
  "js_includes s c = (c \<in> set s)"

text \<open>\<open>s.split(c)\<close>: the segments between the occurrences of \<open>c\<close>; never an empty array.\<close>

fun split :: "char \<Rightarrow> string \<Rightarrow> string list" where
  "split c [] = [[]]"
| "split c (x # xs) =
     (if x = c then [] # split c xs
      else (case split c xs of [] \<Rightarrow> [[x]] | w # ws \<Rightarrow> (x # w) # ws))"

text \<open>\<open>s.split('/').pop()\<close>: the last segment.\<close>

definition pop :: "string list \<Rightarrow> string" where
  "pop segs = last segs"

text \<open>\<open>(s.match(/\//g) || []).length\<close>: the number of occurrences of the separator.\<close>

definition match_count :: "char \<Rightarrow> string \<Rightarrow> nat" where
  "match_count c s = length (filter (\<lambda>x. x = c) s)"

text \<open>The decimal rendering of an index inside a template literal.\<close>

definition digit :: "nat \<Rightarrow> char" where
  "digit d = ''0123456789'' ! d"

function string_of_nat :: "nat \<Rightarrow> string" where
  "string_of_nat n = (if n < 10 then [digit n] else string_of_nat (n div 10) @ [digit (n mod 10)])"
  by pat_completeness auto
termination
  by (relation "measure id") auto

declare string_of_nat.simps [simp del]

subsection \<open>Arrays\<close>

text \<open>
  \<open>Array.prototype.sort(cmp)\<close> is a stable sort: \<open>a\<close> stays before \<open>b\<close> unless
  \<open>cmp(a, b) > 0\<close>. Inserting from the right, each element in front of the first element it
  does not have to follow, computes that order.
\<close>

fun insert_by :: "('a \<Rightarrow> 'a \<Rightarrow> int) \<Rightarrow> 'a \<Rightarrow> 'a list \<Rightarrow> 'a list" where
  "insert_by cmp x [] = [x]"
| "insert_by cmp x (y # ys) = (if cmp x y \<le> 0 then x # y # ys else y # insert_by cmp x ys)"

definition sort_by :: "('a \<Rightarrow> 'a \<Rightarrow> int) \<Rightarrow> 'a list \<Rightarrow> 'a list" where
  "sort_by cmp xs = foldr (insert_by cmp) xs []"

text \<open>\<open>xs.forEach((x, i) => ...)\<close> with the effect of the callback on the state made explicit.\<close>

definition forEach :: "('s \<Rightarrow> 'a \<Rightarrow> nat \<Rightarrow> 's) \<Rightarrow> 'a list \<Rightarrow> 's \<Rightarrow> 's" where
  "forEach f xs s = fold (\<lambda>(i, x) st. f st x i) (enumerate 0 xs) s"

section \<open>Data model\<close>

text \<open>
  An entry of the repository tree. The fetcher passes objects with further fields (mode, url);
  the records are extensible so that such fields can be carried. Field names are prefixed
  (\<open>e_\<close> entry, \<open>m_\<close> repository metadata, \<open>i_\<close> island, \<open>c_\<close> connection) because the
  source uses \<open>name\<close>, \<open>type\<close>, \<open>id\<close> and \<open>size\<close> in several objects.
\<close>

record tree_entry =
  e_path :: string
  e_type :: string
  e_size :: "nat option"
  e_sha :: "string option"

record repo_meta =
  m_name :: "string option"

type_synonym vec3 = "number \<times> number \<times> number"

datatype null = Null

record island =
  i_id :: string
  i_name :: "string option"
  i_type :: string
  i_position :: vec3
  i_scale :: number
  i_altitude :: jsval
  i_color :: "null option"
  i_fileCount :: "nat option"
  i_isCore :: "bool option"
  i_angle :: "number option"
  i_orbitSpeed :: "number option"
  i_orbitRadius :: "number option"
  i_depth :: "nat option"
  i_originalPath :: "string option"
  i_fileSize :: "nat option"

record connection =
  c_id :: string
  c_from :: vec3
  c_to :: vec3
  c_thickness :: real
  c_isPrimary :: bool

record city_layout =
  islands :: "island list"
  connections :: "connection list"

datatype error = TypeError

section \<open>Helpers of the layout module\<close>

definition ALTITUDE_MAP :: "(string \<times> real) list" where
  "ALTITUDE_MAP =
     [(''src'', 12), (''core'', 11), (''lib'', 10), (''main'', 10), (''api'', 9), (''app'', 9),
      (''components'', 7), (''utils'', 6), (''services'', 6), (''hooks'', 6), (''store'', 6),
      (''context'', 6),
      (''assets'', 4), (''styles'', 4), (''public'', 4), (''static'', 4),
      (''test'', 2), (''tests'', 2), (''__tests__'', 2), (''examples'', 2),
      (''docs'', 1), (''deprecated'', 0), (''legacy'', 0)]"

text \<open>
  \<open>ALTITUDE_MAP\<close> is an object literal, so \<open>ALTITUDE_MAP[key]\<close> falls back to the properties
  of \<open>Object.prototype\<close> when \<open>key\<close> is not an own property.
\<close>

definition Object_prototype :: "(string \<times> jsval) list" where
  "Object_prototype =
     [(''constructor'', Builtin ''Object''),
      (''__defineGetter__'', Builtin ''__defineGetter__''),
      (''__defineSetter__'', Builtin ''__defineSetter__''),
      (''hasOwnProperty'', Builtin ''hasOwnProperty''),
      (''__lookupGetter__'', Builtin ''__lookupGetter__''),
      (''__lookupSetter__'', Builtin ''__lookupSetter__''),
      (''isPrototypeOf'', Builtin ''isPrototypeOf''),
      (''propertyIsEnumerable'', Builtin ''propertyIsEnumerable''),
      (''toString'', Builtin ''toString''),
      (''valueOf'', Builtin ''valueOf''),
      (''__proto__'', Builtin ''Object.prototype''),
      (''toLocaleString'', Builtin ''toLocaleString'')]"

definition get_property :: "(string \<times> real) list \<Rightarrow> string \<Rightarrow> jsval" where
  "get_property obj key =
     (case map_of obj key of
        Some v \<Rightarrow> Number (Num v)
      | None \<Rightarrow> (case map_of Object_prototype key of Some b \<Rightarrow> b | None \<Rightarrow> Undefined))"

definition ISLAND_RADIUS_BASE :: real where
  "ISLAND_RADIUS_BASE = 14"

text \<open>
  \<open>nameToAngle\<close>. Its only caller passes the length of the list it iterates as \<open>tot\<close>,
  so \<open>tot\<close> is positive there.
\<close>

definition nameToAngle :: "string \<Rightarrow> nat \<Rightarrow> nat \<Rightarrow> real" where
  "nameToAngle name index tot =
     (let hash = foldl (\<lambda>acc ch. acc + charCodeAt ch) 0 name;
          baseAngle = (real index / real tot) * pi * 2;
          jitter = real (hash mod 30) * (pi / 180)
      in baseAngle + jitter)"

definition sizeToScale :: "nat \<Rightarrow> real" where
  "sizeToScale sz =
     (if sz < 10000 then 0.6
      else if sz < 50000 then 0.9
      else if sz < 200000 then 1.2
      else if sz < 1000000 then 1.6
      else 2.0)"

definition getAltitude :: "string \<Rightarrow> nat \<Rightarrow> jsval" where
  "getAltitude name depth =
     (let key = toLowerCase name
      in if get_property ALTITUDE_MAP key \<noteq> Undefined then get_property ALTITUDE_MAP key
         else Number (Num (max 0 (8 - real depth * 2))))"

section \<open>The demo city\<close>

definition demo_directory ::
  "string \<Rightarrow> real \<times> real \<times> real \<Rightarrow> real \<Rightarrow> real \<Rightarrow> real \<Rightarrow> real \<Rightarrow> real \<Rightarrow> island" where
  "demo_directory nm pos sc alt ang speed rad =
     \<lparr> i_id = nm, i_name = Some nm, i_type = ''directory'',
       i_position = (case pos of (x, y, z) \<Rightarrow> (Num x, Num y, Num z)),
       i_scale = Num sc, i_altitude = Number (Num alt), i_color = None, i_fileCount = None,
       i_isCore = None, i_angle = Some (Num ang), i_orbitSpeed = Some (Num speed),
       i_orbitRadius = Some (Num rad), i_depth = None, i_originalPath = None,
       i_fileSize = None \<rparr>"

definition demo_file ::
  "string \<Rightarrow> string \<Rightarrow> string \<Rightarrow> real \<times> real \<times> real \<Rightarrow> real \<Rightarrow> real \<Rightarrow> nat \<Rightarrow> island" where
  "demo_file ident nm ty pos sc alt sz =
     \<lparr> i_id = ident, i_name = Some nm, i_type = ty,
       i_position = (case pos of (x, y, z) \<Rightarrow> (Num x, Num y, Num z)),
       i_scale = Num sc, i_altitude = Number (Num alt), i_color = None, i_fileCount = None,
       i_isCore = None, i_angle = None, i_orbitSpeed = None, i_orbitRadius = None,
       i_depth = None, i_originalPath = None, i_fileSize = Some sz \<rparr>"

definition demo_connection ::
  "string \<Rightarrow> real \<times> real \<times> real \<Rightarrow> real \<times> real \<times> real \<Rightarrow> real \<Rightarrow> bool \<Rightarrow> connection" where
  "demo_connection ident a b th pr =
     \<lparr> c_id = ident,
       c_from = (case a of (x, y, z) \<Rightarrow> (Num x, Num y, Num z)),
       c_to = (case b of (x, y, z) \<Rightarrow> (Num x, Num y, Num z)),
       c_thickness = th, c_isPrimary = pr \<rparr>"

definition buildDemoCity :: "'b repo_meta_scheme option \<Rightarrow> city_layout" where
  "buildDemoCity repoMeta =
     (let name = or_string (case repoMeta of None \<Rightarrow> None | Some m \<Rightarrow> m_name m) ''DemoRepo''
      in \<lparr> islands =
             [\<lparr> i_id = ''core-station'', i_name = Some name, i_type = ''core'',
                i_position = (Num 0, Num 0, Num 0), i_scale = Num 2.5,
                i_altitude = Number (Num 0), i_color = None, i_fileCount = Some 247,
                i_isCore = Some True, i_angle = None, i_orbitSpeed = None,
                i_orbitRadius = None, i_depth = None, i_originalPath = None,
                i_fileSize = None \<rparr>,
              demo_directory ''src'' (-12, 7, -5) 1.4 12 0 0.0003 13,
              demo_directory ''api'' (10, 6, -8) 1.3 9 1.2 0.00025 13,
              demo_directory ''components'' (5, 2, 12) 1.1 7 2.1 0.00022 13,
              demo_directory ''utils'' (-8, 1, 10) 1.0 6 3.0 0.0002 12,
              demo_directory ''hooks'' (14, 1, 3) 0.9 6 3.8 0.00018 14,
              demo_directory ''store'' (-14, 0, -3) 0.9 6 4.5 0.00017 14,
              demo_directory ''assets'' (3, -3, -14) 0.8 4 5.2 0.00015 14,
              demo_directory ''tests'' (-6, -5, -12) 0.7 2 5.9 0.00012 13,
              demo_directory ''docs'' (12, -6, 7) 0.65 1 0.8 0.0001 14,
              demo_file ''main-file'' ''index.js'' ''sun'' (4, 5, 4) 1.2 8 80000,
              demo_file ''config-file'' ''config.json'' ''star'' (-4, 3, 5) 0.7 5 5000,
              demo_file ''readme'' ''README.md'' ''star'' (6, 2, -5) 0.65 3 3000],
           connections =
             [demo_connection ''c1'' (0, 0, 0) (-12, 7, -5) 2 True,
              demo_connection ''c2'' (0, 0, 0) (10, 6, -8) 2 True,
              demo_connection ''c3'' (0, 0, 0) (5, 2, 12) 1.5 True,
              demo_connection ''c4'' (0, 0, 0) (-8, 1, 10) 1 False,
              demo_connection ''c5'' (0, 0, 0) (14, 1, 3) 1 False,
              demo_connection ''c6'' (0, 0, 0) (-14, 0, -3) 1 False,
              demo_connection ''c7'' (0, 0, 0) (3, -3, -14) 0.8 False,
              demo_connection ''c8'' (0, 0, 0) (-6, -5, -12) 0.6 False,
              demo_connection ''c9'' (-12, 7, -5) (5, 2, 12) 1 False,
              demo_connection ''c10'' (10, 6, -8) (14, 1, 3) 0.8 False] \<rparr>)"

section \<open>The city layout\<close>

text \<open>The two selections made at the top of \<open>buildCityLayout\<close>.\<close>

definition dirs :: "'a tree_entry_scheme list \<Rightarrow> 'a tree_entry_scheme list" where
  "dirs treeData = filter (\<lambda>item. e_type item = ''tree'') treeData"

definition topFiles :: "'a tree_entry_scheme list \<Rightarrow> 'a tree_entry_scheme list" where
  "topFiles treeData =
     take 8 (sort_by (\<lambda>a b. int (or_number (e_size b) 0) - int (or_number (e_size a) 0))
               (filter (\<lambda>item. e_type item = ''blob'') treeData))"

definition topDirs :: "'a tree_entry_scheme list \<Rightarrow> 'a tree_entry_scheme list" where
  "topDirs treeData = take 16 (filter (\<lambda>d. \<not> js_includes (e_path d) CHR ''/'') (dirs treeData))"

text \<open>The central core station, the first island pushed.\<close>

definition core_station :: "'a tree_entry_scheme list \<Rightarrow> 'b repo_meta_scheme \<Rightarrow> island" where
  "core_station treeData repoMeta =
     \<lparr> i_id = ''core-station'', i_name = m_name repoMeta, i_type = ''core'',
       i_position = (Num 0, Num 0, Num 0), i_scale = Num 2.5, i_altitude = Number (Num 0),
       i_color = Some Null, i_fileCount = Some (length treeData), i_isCore = Some True,
       i_angle = None, i_orbitSpeed = None, i_orbitRadius = None, i_depth = None,
       i_originalPath = None, i_fileSize = None \<rparr>"

text \<open>
  The callback of \<open>topDirs.forEach\<close>: it pushes one island and one connection;
  \<open>tot\<close> is \<open>topDirs.length\<close>.
\<close>

definition directory_island :: "nat \<Rightarrow> city_layout \<Rightarrow> 'a tree_entry_scheme \<Rightarrow> nat \<Rightarrow> city_layout" where
  "directory_island tot st dir i =
     (let name = pop (split CHR ''/'' (e_path dir));
          depth = match_count CHR ''/'' (e_path dir);
          altitude = getAltitude name depth;
          angle = nameToAngle name i tot;
          radius = ISLAND_RADIUS_BASE + (sin (real i * 1.3) * 4);
          scale = arith (+) (Num 0.8) (arith (/) (toNumber altitude) (Num 15));
          pos = (Num (cos angle * radius),
                 arith (-) (toNumber altitude) (Num 5),
                 Num (sin angle * radius))
      in st\<lparr> islands := islands st @
               [\<lparr> i_id = or_string (e_sha dir) (''dir-'' @ string_of_nat i),
                  i_name = Some name, i_type = ''directory'', i_position = pos,
                  i_scale = scale, i_altitude = altitude, i_color = None,
                  i_fileCount = None, i_isCore = None, i_angle = Some (Num angle),
                  i_orbitSpeed =
                    Some (arith (+) (Num 0.0002) (arith (*) (toNumber altitude) (Num 0.00003))),
                  i_orbitRadius = Some (Num radius), i_depth = Some depth,
                  i_originalPath = Some (e_path dir), i_fileSize = None \<rparr>],
             connections := connections st @
               [\<lparr> c_id = ''conn-core-'' @ string_of_nat i,
                  c_from = (Num 0, Num 0, Num 0), c_to = pos,
                  c_thickness = (if greater (toNumber altitude) 8 then 2 else 1),
                  c_isPrimary = greater (toNumber altitude) 7 \<rparr>] \<rparr>)"

text \<open>The callback of \<open>topFiles.forEach\<close>; \<open>tot\<close> is \<open>topFiles.length\<close>.\<close>

definition file_orb :: "nat \<Rightarrow> city_layout \<Rightarrow> 'a tree_entry_scheme \<Rightarrow> nat \<Rightarrow> city_layout" where
  "file_orb tot st file i =
     (let name = pop (split CHR ''/'' (e_path file));
          sz = or_number (e_size file) 1000;
          angle = (real i / real tot) * pi * 2 + pi / 4;
          radius = 6 + real (i mod 3) * 2;
          altitude = 2 + (if 50000 < sz then 4 else 0)
      in st\<lparr> islands := islands st @
               [\<lparr> i_id = or_string (e_sha file) (''file-'' @ string_of_nat i),
                  i_name = Some name, i_type = (if 50000 < sz then ''sun'' else ''star''),
                  i_position = (Num (cos angle * radius), Num (altitude - 3),
                                Num (sin angle * radius)),
                  i_scale = Num (sizeToScale sz), i_altitude = Number (Num altitude),
                  i_color = None, i_fileCount = None, i_isCore = None, i_angle = None,
                  i_orbitSpeed = None, i_orbitRadius = None, i_depth = None,
                  i_originalPath = Some (e_path file), i_fileSize = Some sz \<rparr>] \<rparr>)"

text \<open>
  \<open>buildCityLayout\<close>. A missing or empty tree gives the demo city. Otherwise the core
  station reads \<open>repoMeta.name\<close>, which throws a \<open>TypeError\<close> when \<open>repoMeta\<close> is
  \<open>undefined\<close> or \<open>null\<close>.
\<close>

definition buildCityLayout ::
  "'a tree_entry_scheme list option \<Rightarrow> 'b repo_meta_scheme option \<Rightarrow> error + city_layout" where
  "buildCityLayout treeData repoMeta =
     (case treeData of
        None \<Rightarrow> Inr (buildDemoCity repoMeta)
      | Some tree \<Rightarrow>
          if length tree = 0 then Inr (buildDemoCity repoMeta)
          else (case repoMeta of
                  None \<Rightarrow> Inl TypeError
                | Some meta \<Rightarrow>
                    let st0 = \<lparr> islands = [core_station tree meta], connections = [] \<rparr>;
                        st1 = forEach (directory_island (length (topDirs tree))) (topDirs tree) st0;
                        st2 = forEach (file_orb (length (topFiles tree))) (topFiles tree) st1
                    in Inr st2))"

subsection \<open>What one iteration pushes\<close>

text \<open>
  The island and the connection pushed by one run of the directory callback, and the island
  pushed by one run of the file callback, read off the callbacks themselves.
\<close>

definition no_layout :: city_layout where
  "no_layout = \<lparr> islands = [], connections = [] \<rparr>"

definition directory_node :: "nat \<Rightarrow> 'a tree_entry_scheme \<Rightarrow> nat \<Rightarrow> island" where
  "directory_node tot dir i = last (islands (directory_island tot no_layout dir i))"

definition directory_edge :: "nat \<Rightarrow> 'a tree_entry_scheme \<Rightarrow> nat \<Rightarrow> connection" where
  "directory_edge tot dir i = last (connections (directory_island tot no_layout dir i))"

definition file_node :: "nat \<Rightarrow> 'a tree_entry_scheme \<Rightarrow> nat \<Rightarrow> island" where
  "file_node tot file i = last (islands (file_orb tot no_layout file i))"

text \<open>The islands of one kind, in output order.\<close>

definition islands_of_type :: "string \<Rightarrow> city_layout \<Rightarrow> island list" where
  "islands_of_type ty layout = filter (\<lambda>n. i_type n = ty) (islands layout)"

text \<open>All the islands and connections pushed by the two loops.\<close>

definition directory_nodes :: "'a tree_entry_scheme list \<Rightarrow> island list" where
  "directory_nodes tree =
     map (\<lambda>(i, d). directory_node (length (topDirs tree)) d i) (enumerate 0 (topDirs tree))"

definition directory_edges :: "'a tree_entry_scheme list \<Rightarrow> connection list" where
  "directory_edges tree =
     map (\<lambda>(i, d). directory_edge (length (topDirs tree)) d i) (enumerate 0 (topDirs tree))"

definition file_nodes :: "'a tree_entry_scheme list \<Rightarrow> island list" where
  "file_nodes tree =
     map (\<lambda>(i, f). file_node (length (topFiles tree)) f i) (enumerate 0 (topFiles tree))"

section \<open>A worked example\<close>

text \<open>
  The example scenario of the specification: two top-level directories, one file of
  80000 bytes, and a repository called \<open>demo\<close>.
\<close>

definition example_tree :: "tree_entry list" where
  "example_tree =
     [\<lparr> e_path = ''src'', e_type = ''tree'', e_size = None, e_sha = None \<rparr>,
      \<lparr> e_path = ''docs'', e_type = ''tree'', e_size = None, e_sha = None \<rparr>,
      \<lparr> e_path = ''src/index.js'', e_type = ''blob'', e_size = Some 80000, e_sha = None \<rparr>]"

definition example_meta :: repo_meta where
  "example_meta = \<lparr> m_name = Some ''demo'' \<rparr>"

text \<open>Two files of 5000 and 5000000 bytes, and one without a size.\<close>

definition example_files :: "tree_entry list" where
  "example_files =
     [\<lparr> e_path = ''small.txt'', e_type = ''blob'', e_size = Some 5000, e_sha = None \<rparr>,
      \<lparr> e_path = ''empty.txt'', e_type = ''blob'', e_size = None, e_sha = None \<rparr>,
      \<lparr> e_path = ''big.bin'', e_type = ''blob'', e_size = Some 5000000, e_sha = None \<rparr>]"

text \<open>Two files with different paths and the same content, hence the same blob hash.\<close>

definition duplicate_content_tree :: "tree_entry list" where
  "duplicate_content_tree =
     [\<lparr> e_path = ''a.txt'', e_type = ''blob'', e_size = Some 10, e_sha = Some ''e69de29'' \<rparr>,
      \<lparr> e_path = ''b.txt'', e_type = ''blob'', e_size = Some 10, e_sha = Some ''e69de29'' \<rparr>]"





section \<open>The shape of the computed layout\<close>

lemma directory_island_push:
  "directory_island tot st dir i =
     st\<lparr> islands := islands st @ [directory_node tot dir i],
         connections := connections st @ [directory_edge tot dir i] \<rparr>"
  by (simp add: directory_island_def directory_node_def directory_edge_def no_layout_def Let_def)

lemma file_orb_push:
  "file_orb tot st file i = st\<lparr> islands := islands st @ [file_node tot file i] \<rparr>"
  by (simp add: file_orb_def file_node_def no_layout_def Let_def)

lemma fold_directory_island:
  "fold (\<lambda>(i, x) st. directory_island tot st x i) ps st =
     st\<lparr> islands := islands st @ map (\<lambda>(i, x). directory_node tot x i) ps,
         connections := connections st @ map (\<lambda>(i, x). directory_edge tot x i) ps \<rparr>"
proof (induction ps arbitrary: st)
  case Nil
  show ?case by simp
next
  case (Cons p ps)
  obtain i x where p: "p = (i, x)" by (cases p)
  show ?case
    by (simp add: p Cons.IH) (simp add: directory_island_push)
qed

lemma fold_file_orb:
  "fold (\<lambda>(i, x) st. file_orb tot st x i) ps st =
     st\<lparr> islands := islands st @ map (\<lambda>(i, x). file_node tot x i) ps \<rparr>"
proof (induction ps arbitrary: st)
  case Nil
  show ?case by simp
next
  case (Cons p ps)
  obtain i x where p: "p = (i, x)" by (cases p)
  show ?case
    by (simp add: p Cons.IH) (simp add: file_orb_push)
qed

lemma buildCityLayout_primary:
  assumes "tree \<noteq> []"
  shows "buildCityLayout (Some tree) (Some meta) =
           Inr \<lparr> islands = core_station tree meta # directory_nodes tree @ file_nodes tree,
                 connections = directory_edges tree \<rparr>"
  using assms
  by (simp add: buildCityLayout_def forEach_def fold_directory_island fold_file_orb
      directory_nodes_def directory_edges_def file_nodes_def Let_def)

lemma buildCityLayout_fallback:
  "buildCityLayout None meta = Inr (buildDemoCity meta)"
  "buildCityLayout (Some []) meta = Inr (buildDemoCity meta)"
  by (simp_all add: buildCityLayout_def)

lemma buildCityLayout_throws:
  "tree \<noteq> [] \<Longrightarrow> buildCityLayout (Some tree) None = Inl TypeError"
  by (simp add: buildCityLayout_def)

lemma example_returns:
  "buildCityLayout (Some example_tree) (Some example_meta) =
     Inr \<lparr> islands = core_station example_tree example_meta #
                       directory_nodes example_tree @ file_nodes example_tree,
           connections = directory_edges example_tree \<rparr>"
  by (rule buildCityLayout_primary) (simp add: example_tree_def)

section \<open>The core station\<close>

lemma directory_node_type [simp]: "i_type (directory_node tot d i) = ''directory''"
  by (simp add: directory_node_def directory_island_def no_layout_def Let_def)

lemma file_node_type:
  "i_type (file_node tot f i) = (if 50000 < or_number (e_size f) 1000 then ''sun'' else ''star'')"
  by (simp add: file_node_def file_orb_def no_layout_def Let_def)

lemma filter_core_directory_nodes [simp]:
  "filter (\<lambda>n. i_type n = ''core'') (directory_nodes tree) = []"
  by (auto simp: directory_nodes_def filter_empty_conv)

lemma filter_core_file_nodes [simp]:
  "filter (\<lambda>n. i_type n = ''core'') (file_nodes tree) = []"
  by (auto simp: file_nodes_def filter_empty_conv file_node_type split: if_splits)

lemma core_of_primary:
  "islands_of_type ''core''
     \<lparr> islands = core_station tree meta # directory_nodes tree @ file_nodes tree,
       connections = cs \<rparr> = [core_station tree meta]"
  by (simp add: islands_of_type_def) (simp add: core_station_def)

lemma core_of_demo:
  "\<exists>c. islands_of_type ''core'' (buildDemoCity meta) = [c] \<and>
       i_position c = (Num 0, Num 0, Num 0) \<and> i_scale c = Num 2.5 \<and>
       i_altitude c = Number (Num 0)"
  by (simp add: islands_of_type_def buildDemoCity_def demo_directory_def demo_file_def Let_def)

text \<open>
  C2. Whenever \<open>buildCityLayout\<close> returns a layout (on the primary path and on the
  fallback path alike), exactly one island has type \<open>core\<close>; it sits at \<open>(0,0,0)\<close>, has
  scale 2.5 and altitude 0. (The only call that returns no layout is the one with a
  non-empty tree and no \<open>repoMeta\<close>, which throws.)
\<close>

theorem core_node_invariant:
  assumes "buildCityLayout treeData repoMeta = Inr layout"
  shows "\<exists>c. islands_of_type ''core'' layout = [c] \<and> i_position c = (Num 0, Num 0, Num 0)
             \<and> i_scale c = Num 2.5 \<and> i_altitude c = Number (Num 0)"
proof (cases "treeData = None \<or> treeData = Some []")
  case True
  then have "layout = buildDemoCity repoMeta"
    using assms by (auto simp: buildCityLayout_fallback)
  then show ?thesis using core_of_demo by simp
next
  case False
  then obtain tree where tree: "treeData = Some tree" "tree \<noteq> []" by auto
  show ?thesis
  proof (cases repoMeta)
    case None
    then show ?thesis using assms tree by (simp add: buildCityLayout_throws)
  next
    case (Some meta)
    then have "layout =
        \<lparr> islands = core_station tree meta # directory_nodes tree @ file_nodes tree,
          connections = directory_edges tree \<rparr>"
      using assms tree by (simp add: buildCityLayout_primary)
    then show ?thesis
      by (simp add: core_of_primary) (simp add: core_station_def)
  qed
qed

theorem core_node_invariant_witness:
  "\<exists>layout. buildCityLayout (Some example_tree) (Some example_meta) = Inr layout \<and>
     (\<exists>c. islands_of_type ''core'' layout = [c] \<and> i_position c = (Num 0, Num 0, Num 0)
             \<and> i_scale c = Num 2.5 \<and> i_altitude c = Number (Num 0))"
  using core_node_invariant [OF example_returns] example_returns by blast

section \<open>The fallback\<close>

text \<open>
  C3. With a missing or empty tree \<open>buildCityLayout\<close> does not throw, whatever \<open>repoMeta\<close>
  is: it returns the demo city. That layout is never empty: it has 13 islands and 10
  connections, and every field of every one of them is the constant written in the source,
  listed here field by field: the ids, names, types, positions, scales, altitudes, angles,
  orbit speeds and radii and file sizes of the islands, and the ids, end points, thickness
  and \<open>isPrimary\<close> of the connections. The one value taken from the input is the name of
  the core station: \<open>repoMeta.name\<close>, or \<open>DemoRepo\<close> when \<open>repoMeta\<close> or its name is absent
  or empty.
\<close>

theorem fallback_on_insufficient_input:
  assumes "treeData = None \<or> treeData = Some []"
  shows "buildCityLayout treeData repoMeta = Inr (buildDemoCity repoMeta) \<and>
         islands (buildDemoCity repoMeta) \<noteq> [] \<and>
         length (islands (buildDemoCity repoMeta)) = 13 \<and>
         length (connections (buildDemoCity repoMeta)) = 10 \<and>
         map i_id (islands (buildDemoCity repoMeta)) =
           [''core-station'', ''src'', ''api'', ''components'', ''utils'', ''hooks'',
            ''store'', ''assets'', ''tests'', ''docs'', ''main-file'', ''config-file'',
            ''readme''] \<and>
         map i_name (islands (buildDemoCity repoMeta)) =
           Some (case repoMeta of
                   None \<Rightarrow> ''DemoRepo''
                 | Some m \<Rightarrow> (case m_name m of
                               None \<Rightarrow> ''DemoRepo''
                             | Some s \<Rightarrow> if s = [] then ''DemoRepo'' else s)) #
           [Some ''src'', Some ''api'', Some ''components'', Some ''utils'',
            Some ''hooks'', Some ''store'', Some ''assets'', Some ''tests'', Some ''docs'',
            Some ''index.js'', Some ''config.json'', Some ''README.md''] \<and>
         map i_type (islands (buildDemoCity repoMeta)) =
           [''core'', ''directory'', ''directory'', ''directory'', ''directory'',
            ''directory'', ''directory'', ''directory'', ''directory'', ''directory'',
            ''sun'', ''star'', ''star''] \<and>
         map i_position (islands (buildDemoCity repoMeta)) =
           [(Num 0, Num 0, Num 0), (Num (- 12), Num 7, Num (- 5)),
            (Num 10, Num 6, Num (- 8)), (Num 5, Num 2, Num 12), (Num (- 8), Num 1, Num 10),
            (Num 14, Num 1, Num 3), (Num (- 14), Num 0, Num (- 3)),
            (Num 3, Num (- 3), Num (- 14)), (Num (- 6), Num (- 5), Num (- 12)),
            (Num 12, Num (- 6), Num 7), (Num 4, Num 5, Num 4), (Num (- 4), Num 3, Num 5),
            (Num 6, Num 2, Num (- 5))] \<and>
         map i_scale (islands (buildDemoCity repoMeta)) =
           [Num 2.5, Num 1.4, Num 1.3, Num 1.1, Num 1.0, Num 0.9, Num 0.9, Num 0.8,
            Num 0.7, Num 0.65, Num 1.2, Num 0.7, Num 0.65] \<and>
         map i_altitude (islands (buildDemoCity repoMeta)) =
           [Number (Num 0), Number (Num 12), Number (Num 9), Number (Num 7),
            Number (Num 6), Number (Num 6), Number (Num 6), Number (Num 4), Number (Num 2),
            Number (Num 1), Number (Num 8), Number (Num 5), Number (Num 3)] \<and>
         map i_color (islands (buildDemoCity repoMeta)) =
           [None, None, None, None, None, None, None, None, None, None, None, None, None] \<and>
         map i_fileCount (islands (buildDemoCity repoMeta)) =
           [Some 247, None, None, None, None, None, None, None, None, None, None, None,
            None] \<and>
         map i_isCore (islands (buildDemoCity repoMeta)) =
           [Some True, None, None, None, None, None, None, None, None, None, None, None,
            None] \<and>
         map i_angle (islands (buildDemoCity repoMeta)) =
           [None, Some (Num 0), Some (Num 1.2), Some (Num 2.1), Some (Num 3.0),
            Some (Num 3.8), Some (Num 4.5), Some (Num 5.2), Some (Num 5.9), Some (Num 0.8),
            None, None, None] \<and>
         map i_orbitSpeed (islands (buildDemoCity repoMeta)) =
           [None, Some (Num 0.0003), Some (Num 0.00025), Some (Num 0.00022),
            Some (Num 0.0002), Some (Num 0.00018), Some (Num 0.00017), Some (Num 0.00015),
            Some (Num 0.00012), Some (Num 0.0001), None, None, None] \<and>
         map i_orbitRadius (islands (buildDemoCity repoMeta)) =
           [None, Some (Num 13), Some (Num 13), Some (Num 13), Some (Num 12),
            Some (Num 14), Some (Num 14), Some (Num 14), Some (Num 13), Some (Num 14),
            None, None, None] \<and>
         map i_depth (islands (buildDemoCity repoMeta)) =
           [None, None, None, None, None, None, None, None, None, None, None, None, None] \<and>
         map i_originalPath (islands (buildDemoCity repoMeta)) =
           [None, None, None, None, None, None, None, None, None, None, None, None, None] \<and>
         map i_fileSize (islands (buildDemoCity repoMeta)) =
           [None, None, None, None, None, None, None, None, None, None, Some 80000,
            Some 5000, Some 3000] \<and>
         map c_id (connections (buildDemoCity repoMeta)) =
           [''c1'', ''c2'', ''c3'', ''c4'', ''c5'', ''c6'', ''c7'', ''c8'', ''c9'', ''c10''] \<and>
         map c_from (connections (buildDemoCity repoMeta)) =
           [(Num 0, Num 0, Num 0), (Num 0, Num 0, Num 0), (Num 0, Num 0, Num 0),
            (Num 0, Num 0, Num 0), (Num 0, Num 0, Num 0), (Num 0, Num 0, Num 0),
            (Num 0, Num 0, Num 0), (Num 0, Num 0, Num 0), (Num (- 12), Num 7, Num (- 5)),
            (Num 10, Num 6, Num (- 8))] \<and>
         map c_to (connections (buildDemoCity repoMeta)) =
           [(Num (- 12), Num 7, Num (- 5)), (Num 10, Num 6, Num (- 8)),
            (Num 5, Num 2, Num 12), (Num (- 8), Num 1, Num 10), (Num 14, Num 1, Num 3),
            (Num (- 14), Num 0, Num (- 3)), (Num 3, Num (- 3), Num (- 14)),
            (Num (- 6), Num (- 5), Num (- 12)), (Num 5, Num 2, Num 12),
            (Num 14, Num 1, Num 3)] \<and>
         map c_thickness (connections (buildDemoCity repoMeta)) =
           [2, 2, 1.5, 1, 1, 1, 0.8, 0.6, 1, 0.8] \<and>
         map c_isPrimary (connections (buildDemoCity repoMeta)) =
           [True, True, True, False, False, False, False, False, False, False] \<and>
         tl (islands (buildDemoCity repoMeta)) =
           tl (islands (buildDemoCity (None :: repo_meta option))) \<and>
         connections (buildDemoCity repoMeta) =
           connections (buildDemoCity (None :: repo_meta option))"
proof -
  have ret: "buildCityLayout treeData repoMeta = Inr (buildDemoCity repoMeta)"
    using assms by (auto simp: buildCityLayout_fallback)
  have shape: "islands (buildDemoCity repoMeta) \<noteq> []"
    "length (islands (buildDemoCity repoMeta)) = 13"
    "length (connections (buildDemoCity repoMeta)) = 10"
    by (simp_all add: buildDemoCity_def Let_def)
  have i_id: "map i_id (islands (buildDemoCity repoMeta)) =
      [''core-station'', ''src'', ''api'', ''components'', ''utils'', ''hooks'',
       ''store'', ''assets'', ''tests'', ''docs'', ''main-file'', ''config-file'',
       ''readme'']"
    by (simp add: buildDemoCity_def Let_def demo_directory_def demo_file_def)
  have i_name: "map i_name (islands (buildDemoCity repoMeta)) =
      Some (case repoMeta of
              None \<Rightarrow> ''DemoRepo''
            | Some m \<Rightarrow> (case m_name m of
                          None \<Rightarrow> ''DemoRepo''
                        | Some s \<Rightarrow> if s = [] then ''DemoRepo'' else s)) #
      [Some ''src'', Some ''api'', Some ''components'', Some ''utils'',
       Some ''hooks'', Some ''store'', Some ''assets'', Some ''tests'', Some ''docs'',
       Some ''index.js'', Some ''config.json'', Some ''README.md'']"
    by (simp add: buildDemoCity_def Let_def demo_directory_def demo_file_def split: option.splits)
  have i_type: "map i_type (islands (buildDemoCity repoMeta)) =
      [''core'', ''directory'', ''directory'', ''directory'', ''directory'',
       ''directory'', ''directory'', ''directory'', ''directory'', ''directory'',
       ''sun'', ''star'', ''star'']"
    by (simp add: buildDemoCity_def Let_def demo_directory_def demo_file_def)
  have i_position: "map i_position (islands (buildDemoCity repoMeta)) =
      [(Num 0, Num 0, Num 0), (Num (- 12), Num 7, Num (- 5)),
       (Num 10, Num 6, Num (- 8)), (Num 5, Num 2, Num 12), (Num (- 8), Num 1, Num 10),
       (Num 14, Num 1, Num 3), (Num (- 14), Num 0, Num (- 3)),
       (Num 3, Num (- 3), Num (- 14)), (Num (- 6), Num (- 5), Num (- 12)),
       (Num 12, Num (- 6), Num 7), (Num 4, Num 5, Num 4), (Num (- 4), Num 3, Num 5),
       (Num 6, Num 2, Num (- 5))]"
    by (simp add: buildDemoCity_def Let_def demo_directory_def demo_file_def)
  have i_scale: "map i_scale (islands (buildDemoCity repoMeta)) =
      [Num 2.5, Num 1.4, Num 1.3, Num 1.1, Num 1.0, Num 0.9, Num 0.9, Num 0.8,
       Num 0.7, Num 0.65, Num 1.2, Num 0.7, Num 0.65]"
    by (simp add: buildDemoCity_def Let_def demo_directory_def demo_file_def)
  have i_altitude: "map i_altitude (islands (buildDemoCity repoMeta)) =
      [Number (Num 0), Number (Num 12), Number (Num 9), Number (Num 7),
       Number (Num 6), Number (Num 6), Number (Num 6), Number (Num 4), Number (Num 2),
       Number (Num 1), Number (Num 8), Number (Num 5), Number (Num 3)]"
    by (simp add: buildDemoCity_def Let_def demo_directory_def demo_file_def)
  have i_color: "map i_color (islands (buildDemoCity repoMeta)) =
      [None, None, None, None, None, None, None, None, None, None, None, None, None]"
    by (simp add: buildDemoCity_def Let_def demo_directory_def demo_file_def)
  have i_fileCount: "map i_fileCount (islands (buildDemoCity repoMeta)) =
      [Some 247, None, None, None, None, None, None, None, None, None, None, None,
       None]"
    by (simp add: buildDemoCity_def Let_def demo_directory_def demo_file_def)
  have i_isCore: "map i_isCore (islands (buildDemoCity repoMeta)) =
      [Some True, None, None, None, None, None, None, None, None, None, None, None,
       None]"
    by (simp add: buildDemoCity_def Let_def demo_directory_def demo_file_def)
  have i_angle: "map i_angle (islands (buildDemoCity repoMeta)) =
      [None, Some (Num 0), Some (Num 1.2), Some (Num 2.1), Some (Num 3.0),
       Some (Num 3.8), Some (Num 4.5), Some (Num 5.2), Some (Num 5.9), Some (Num 0.8),
       None, None, None]"
    by (simp add: buildDemoCity_def Let_def demo_directory_def demo_file_def)
  have i_orbitSpeed: "map i_orbitSpeed (islands (buildDemoCity repoMeta)) =
      [None, Some (Num 0.0003), Some (Num 0.00025), Some (Num 0.00022),
       Some (Num 0.0002), Some (Num 0.00018), Some (Num 0.00017), Some (Num 0.00015),
       Some (Num 0.00012), Some (Num 0.0001), None, None, None]"
    by (simp add: buildDemoCity_def Let_def demo_directory_def demo_file_def)
  have i_orbitRadius: "map i_orbitRadius (islands (buildDemoCity repoMeta)) =
      [None, Some (Num 13), Some (Num 13), Some (Num 13), Some (Num 12),
       Some (Num 14), Some (Num 14), Some (Num 14), Some (Num 13), Some (Num 14),
       None, None, None]"
    by (simp add: buildDemoCity_def Let_def demo_directory_def demo_file_def)
  have i_depth: "map i_depth (islands (buildDemoCity repoMeta)) =
      [None, None, None, None, None, None, None, None, None, None, None, None, None]"
    by (simp add: buildDemoCity_def Let_def demo_directory_def demo_file_def)
  have i_originalPath: "map i_originalPath (islands (buildDemoCity repoMeta)) =
      [None, None, None, None, None, None, None, None, None, None, None, None, None]"
    by (simp add: buildDemoCity_def Let_def demo_directory_def demo_file_def)
  have i_fileSize: "map i_fileSize (islands (buildDemoCity repoMeta)) =
      [None, None, None, None, None, None, None, None, None, None, Some 80000,
       Some 5000, Some 3000]"
    by (simp add: buildDemoCity_def Let_def demo_directory_def demo_file_def)
  have c_id: "map c_id (connections (buildDemoCity repoMeta)) =
      [''c1'', ''c2'', ''c3'', ''c4'', ''c5'', ''c6'', ''c7'', ''c8'', ''c9'', ''c10'']"
    by (simp add: buildDemoCity_def Let_def demo_connection_def)
  have c_from: "map c_from (connections (buildDemoCity repoMeta)) =
      [(Num 0, Num 0, Num 0), (Num 0, Num 0, Num 0), (Num 0, Num 0, Num 0),
       (Num 0, Num 0, Num 0), (Num 0, Num 0, Num 0), (Num 0, Num 0, Num 0),
       (Num 0, Num 0, Num 0), (Num 0, Num 0, Num 0), (Num (- 12), Num 7, Num (- 5)),
       (Num 10, Num 6, Num (- 8))]"
    by (simp add: buildDemoCity_def Let_def demo_connection_def)
  have c_to: "map c_to (connections (buildDemoCity repoMeta)) =
      [(Num (- 12), Num 7, Num (- 5)), (Num 10, Num 6, Num (- 8)),
       (Num 5, Num 2, Num 12), (Num (- 8), Num 1, Num 10), (Num 14, Num 1, Num 3),
       (Num (- 14), Num 0, Num (- 3)), (Num 3, Num (- 3), Num (- 14)),
       (Num (- 6), Num (- 5), Num (- 12)), (Num 5, Num 2, Num 12),
       (Num 14, Num 1, Num 3)]"
    by (simp add: buildDemoCity_def Let_def demo_connection_def)
  have c_thickness: "map c_thickness (connections (buildDemoCity repoMeta)) =
      [2, 2, 1.5, 1, 1, 1, 0.8, 0.6, 1, 0.8]"
    by (simp add: buildDemoCity_def Let_def demo_connection_def)
  have c_isPrimary: "map c_isPrimary (connections (buildDemoCity repoMeta)) =
      [True, True, True, False, False, False, False, False, False, False]"
    by (simp add: buildDemoCity_def Let_def demo_connection_def)
  have same: "tl (islands (buildDemoCity repoMeta)) =
      tl (islands (buildDemoCity (None :: repo_meta option)))"
    "connections (buildDemoCity repoMeta) =
      connections (buildDemoCity (None :: repo_meta option))"
    by (simp_all add: buildDemoCity_def Let_def)
  show ?thesis
    by (intro conjI) (fact ret shape i_id i_name i_type i_position i_scale i_altitude i_color i_fileCount i_isCore i_angle i_orbitSpeed i_orbitRadius i_depth i_originalPath i_fileSize c_id c_from c_to c_thickness c_isPrimary same)+
qed

theorem fallback_on_insufficient_input_witness:
  "buildCityLayout (Some ([] :: tree_entry list)) (Some example_meta) =
     Inr (buildDemoCity (Some example_meta)) \<and>
   length (islands (buildDemoCity (Some example_meta))) = 13 \<and>
   map i_name (islands (buildDemoCity (Some example_meta))) =
     Some ''demo'' #
     [Some ''src'', Some ''api'', Some ''components'', Some ''utils'', Some ''hooks'',
      Some ''store'', Some ''assets'', Some ''tests'', Some ''docs'', Some ''index.js'',
      Some ''config.json'', Some ''README.md''] \<and>
   map i_position (islands (buildDemoCity (Some example_meta))) =
     [(Num 0, Num 0, Num 0), (Num (- 12), Num 7, Num (- 5)), (Num 10, Num 6, Num (- 8)),
      (Num 5, Num 2, Num 12), (Num (- 8), Num 1, Num 10), (Num 14, Num 1, Num 3),
      (Num (- 14), Num 0, Num (- 3)), (Num 3, Num (- 3), Num (- 14)),
      (Num (- 6), Num (- 5), Num (- 12)), (Num 12, Num (- 6), Num 7),
      (Num 4, Num 5, Num 4), (Num (- 4), Num 3, Num 5), (Num 6, Num 2, Num (- 5))] \<and>
   map c_to (connections (buildDemoCity (Some example_meta))) =
     [(Num (- 12), Num 7, Num (- 5)), (Num 10, Num 6, Num (- 8)), (Num 5, Num 2, Num 12),
      (Num (- 8), Num 1, Num 10), (Num 14, Num 1, Num 3), (Num (- 14), Num 0, Num (- 3)),
      (Num 3, Num (- 3), Num (- 14)), (Num (- 6), Num (- 5), Num (- 12)),
      (Num 5, Num 2, Num 12), (Num 14, Num 1, Num 3)] \<and>
   buildCityLayout (None :: tree_entry list option) (None :: repo_meta option) =
     Inr (buildDemoCity (None :: repo_meta option)) \<and>
   i_name (hd (islands (buildDemoCity (None :: repo_meta option)))) = Some ''DemoRepo''"
proof -
  have empty: "Some ([] :: tree_entry list) = None \<or> Some ([] :: tree_entry list) = Some []"
    and missing: "(None :: tree_entry list option) = None \<or> (None :: tree_entry list option) = Some []"
    by simp_all
  note a = fallback_on_insufficient_input [OF empty, of "Some example_meta"]
  note b = fallback_on_insufficient_input [OF missing, of "None :: repo_meta option"]
  have 1: "buildCityLayout (Some ([] :: tree_entry list)) (Some example_meta) =
     Inr (buildDemoCity (Some example_meta))"
    using a by (elim conjE)
  have 2: "length (islands (buildDemoCity (Some example_meta))) = 13"
    using a by (elim conjE)
  have 3: "map i_name (islands (buildDemoCity (Some example_meta))) =
     Some ''demo'' #
     [Some ''src'', Some ''api'', Some ''components'', Some ''utils'', Some ''hooks'',
      Some ''store'', Some ''assets'', Some ''tests'', Some ''docs'', Some ''index.js'',
      Some ''config.json'', Some ''README.md'']"
    using a by (elim conjE) (simp add: example_meta_def)
  have 4: "map i_position (islands (buildDemoCity (Some example_meta))) =
     [(Num 0, Num 0, Num 0), (Num (- 12), Num 7, Num (- 5)), (Num 10, Num 6, Num (- 8)),
      (Num 5, Num 2, Num 12), (Num (- 8), Num 1, Num 10), (Num 14, Num 1, Num 3),
      (Num (- 14), Num 0, Num (- 3)), (Num 3, Num (- 3), Num (- 14)),
      (Num (- 6), Num (- 5), Num (- 12)), (Num 12, Num (- 6), Num 7),
      (Num 4, Num 5, Num 4), (Num (- 4), Num 3, Num 5), (Num 6, Num 2, Num (- 5))]"
    using a by (elim conjE)
  have 5: "map c_to (connections (buildDemoCity (Some example_meta))) =
     [(Num (- 12), Num 7, Num (- 5)), (Num 10, Num 6, Num (- 8)), (Num 5, Num 2, Num 12),
      (Num (- 8), Num 1, Num 10), (Num 14, Num 1, Num 3), (Num (- 14), Num 0, Num (- 3)),
      (Num 3, Num (- 3), Num (- 14)), (Num (- 6), Num (- 5), Num (- 12)),
      (Num 5, Num 2, Num 12), (Num 14, Num 1, Num 3)]"
    using a by (elim conjE)
  have 6: "buildCityLayout (None :: tree_entry list option) (None :: repo_meta option) =
     Inr (buildDemoCity (None :: repo_meta option))"
    using b by (elim conjE)
  have "map i_name (islands (buildDemoCity (None :: repo_meta option))) \<noteq> [] \<and>
        hd (map i_name (islands (buildDemoCity (None :: repo_meta option)))) = Some ''DemoRepo''"
    using b by (elim conjE) simp
  then have 7: "i_name (hd (islands (buildDemoCity (None :: repo_meta option)))) = Some ''DemoRepo''"
    by (metis hd_map map_is_Nil_conv)
  from 1 2 3 4 5 6 7 show ?thesis by (intro conjI)
qed

section \<open>Indexing the computed layout\<close>

lemma length_directory_nodes [simp]: "length (directory_nodes tree) = length (topDirs tree)"
  by (simp add: directory_nodes_def)

lemma length_directory_edges [simp]: "length (directory_edges tree) = length (topDirs tree)"
  by (simp add: directory_edges_def)

lemma length_file_nodes [simp]: "length (file_nodes tree) = length (topFiles tree)"
  by (simp add: file_nodes_def)

lemma nth_directory_nodes:
  "k < length (topDirs tree) \<Longrightarrow>
     directory_nodes tree ! k = directory_node (length (topDirs tree)) (topDirs tree ! k) k"
  by (simp add: directory_nodes_def nth_enumerate_eq)

lemma nth_directory_edges:
  "k < length (topDirs tree) \<Longrightarrow>
     directory_edges tree ! k = directory_edge (length (topDirs tree)) (topDirs tree ! k) k"
  by (simp add: directory_edges_def nth_enumerate_eq)

lemma nth_file_nodes:
  "k < length (topFiles tree) \<Longrightarrow>
     file_nodes tree ! k = file_node (length (topFiles tree)) (topFiles tree ! k) k"
  by (simp add: file_nodes_def nth_enumerate_eq)

lemma primary_layout:
  assumes "tree \<noteq> []" and "buildCityLayout (Some tree) repoMeta = Inr layout"
  obtains meta where "repoMeta = Some meta"
    and "islands layout = core_station tree meta # directory_nodes tree @ file_nodes tree"
    and "connections layout = directory_edges tree"
proof (cases repoMeta)
  case None
  then show ?thesis using assms by (simp add: buildCityLayout_throws)
next
  case (Some meta)
  then have "layout = \<lparr> islands = core_station tree meta # directory_nodes tree @ file_nodes tree,
                         connections = directory_edges tree \<rparr>"
    using assms by (simp add: buildCityLayout_primary)
  then have "islands layout = core_station tree meta # directory_nodes tree @ file_nodes tree"
    and "connections layout = directory_edges tree"
    by simp_all
  with Some show ?thesis by (rule that)
qed

lemma nth_island_directory:
  fixes repoMeta :: "'m repo_meta_scheme option"
  assumes "tree \<noteq> []" and "buildCityLayout (Some tree) repoMeta = Inr layout"
    and "k < length (topDirs tree)"
  shows "islands layout ! (1 + k) = directory_node (length (topDirs tree)) (topDirs tree ! k) k"
proof -
  obtain meta :: "'m repo_meta_scheme" where eq: "islands layout = core_station tree meta # directory_nodes tree @ file_nodes tree"
    using primary_layout [OF assms(1,2)] by blast
  have "islands layout ! (1 + k) = (directory_nodes tree @ file_nodes tree) ! k"
    unfolding eq by simp
  also have "\<dots> = directory_nodes tree ! k"
    using assms(3) by (simp only: nth_append length_directory_nodes if_True)
  finally show ?thesis
    using assms(3) by (simp only: nth_directory_nodes)
qed

lemma nth_island_file:
  fixes repoMeta :: "'m repo_meta_scheme option"
  assumes "tree \<noteq> []" and "buildCityLayout (Some tree) repoMeta = Inr layout"
    and "k < length (topFiles tree)"
  shows "islands layout ! (1 + length (topDirs tree) + k) =
           file_node (length (topFiles tree)) (topFiles tree ! k) k"
proof -
  obtain meta :: "'m repo_meta_scheme" where eq: "islands layout = core_station tree meta # directory_nodes tree @ file_nodes tree"
    using primary_layout [OF assms(1,2)] by blast
  have "islands layout ! (1 + length (topDirs tree) + k) =
          (directory_nodes tree @ file_nodes tree) ! (length (directory_nodes tree) + k)"
    unfolding eq by simp
  also have "\<dots> = file_nodes tree ! k"
    by (rule nth_append_length_plus)
  finally show ?thesis
    using assms(3) by (simp only: nth_file_nodes)
qed

section \<open>The altitude resolver\<close>

lemma toLowerCase_constructor: "toLowerCase ''constructor'' = ''constructor''"
  by (simp add: toLowerCase_def lower_char_def charCodeAt_def)

lemma getAltitude_own:
  "map_of ALTITUDE_MAP (toLowerCase name) = Some v \<Longrightarrow> getAltitude name depth = Number (Num v)"
  by (simp add: getAltitude_def get_property_def)

lemma getAltitude_inherited:
  "map_of ALTITUDE_MAP (toLowerCase name) = None \<Longrightarrow>
   map_of Object_prototype (toLowerCase name) = Some b \<Longrightarrow> b \<noteq> Undefined \<Longrightarrow>
   getAltitude name depth = b"
  by (simp add: getAltitude_def get_property_def)

lemma getAltitude_unknown:
  "map_of ALTITUDE_MAP (toLowerCase name) = None \<Longrightarrow>
   map_of Object_prototype (toLowerCase name) = None \<Longrightarrow>
   getAltitude name depth = Number (Num (max 0 (8 - real depth * 2)))"
  by (simp add: getAltitude_def get_property_def)

lemma ALTITUDE_MAP_nonneg:
  "map_of ALTITUDE_MAP key = Some v \<Longrightarrow> 0 \<le> v"
  by (auto simp: ALTITUDE_MAP_def split: if_splits)

text \<open>
  Names whose lower-cased form is neither \<open>constructor\<close> nor \<open>__proto__\<close> (the two
  all-lower-case properties every object literal inherits that are not in the table, as far
  as \<open>getAltitude\<close> can reach them) get a finite, non-negative altitude; outside the table
  it is \<open>max(0, 8 - 2 * depth)\<close>, which does not increase with the depth.
\<close>

lemma getAltitude_ordinary:
  assumes "map_of Object_prototype (toLowerCase name) = None"
  shows "\<exists>a. getAltitude name depth = Number (Num a) \<and> 0 \<le> a \<and>
           (map_of ALTITUDE_MAP (toLowerCase name) = None \<longrightarrow> a = max 0 (8 - real depth * 2))"
proof (cases "map_of ALTITUDE_MAP (toLowerCase name)")
  case None
  then show ?thesis using assms by (simp add: getAltitude_unknown)
next
  case (Some v)
  then show ?thesis using ALTITUDE_MAP_nonneg [OF Some] by (simp add: getAltitude_own)
qed

lemma getAltitude_monotone:
  assumes "map_of Object_prototype (toLowerCase name) = None"
    and "map_of ALTITUDE_MAP (toLowerCase name) = None" and "d1 \<le> d2"
  shows "\<exists>a1 a2. getAltitude name d1 = Number (Num a1) \<and> getAltitude name d2 = Number (Num a2) \<and>
           0 \<le> a2 \<and> a2 \<le> a1"
  using assms by (simp add: getAltitude_unknown)

text \<open>
  C7. \<open>getAltitude\<close> is not total into the non-negative numbers: for the directory name
  \<open>constructor\<close>, which is not in the lookup table, \<open>ALTITUDE_MAP[key]\<close> finds the property
  inherited from \<open>Object.prototype\<close>, so the function returns the built-in \<open>Object\<close>
  function at every depth instead of \<open>max(0, 8 - 2 * depth)\<close>; the island of a top-level
  directory of that name gets the scale \<open>NaN\<close> and the height \<open>NaN\<close>.
\<close>

theorem getAltitude_constructor:
  "map_of ALTITUDE_MAP (toLowerCase ''constructor'') = None \<and>
   getAltitude ''constructor'' 0 = Builtin ''Object'' \<and>
   getAltitude ''constructor'' 0 \<noteq> Number (Num (max 0 (8 - real (0::nat) * 2))) \<and>
   toNumber (getAltitude ''constructor'' 0) = NaN \<and>
   i_scale (directory_node 1
      \<lparr> e_path = ''constructor'', e_type = ''tree'', e_size = None, e_sha = None \<rparr> 0) = NaN \<and>
   fst (snd (i_position (directory_node 1
      \<lparr> e_path = ''constructor'', e_type = ''tree'', e_size = None, e_sha = None \<rparr> 0))) = NaN"
proof -
  have own: "map_of ALTITUDE_MAP (toLowerCase ''constructor'') = None"
    by (simp add: toLowerCase_constructor ALTITUDE_MAP_def)
  have inh: "map_of Object_prototype (toLowerCase ''constructor'') = Some (Builtin ''Object'')"
    by (simp add: toLowerCase_constructor Object_prototype_def)
  have alt: "\<And>d. getAltitude ''constructor'' d = Builtin ''Object''"
    by (rule getAltitude_inherited [OF own inh]) simp
  show ?thesis
    by (simp add: own alt pop_def directory_node_def directory_island_def no_layout_def Let_def)
qed

section \<open>The top files\<close>

text \<open>The comparator of the source orders by the size read as \<open>size || 0\<close>, largest first.\<close>

lemma insert_by_insort_key:
  "insert_by (\<lambda>a b. int (k b) - int (k a)) x ys = insort_key (\<lambda>e. - int (k e)) x ys"
  by (induction ys) auto

lemma sort_by_sort_key:
  "sort_by (\<lambda>a b. int (k b) - int (k a)) xs = sort_key (\<lambda>e. - int (k e)) xs"
  by (induction xs) (simp_all add: sort_by_def insert_by_insort_key)

lemma topFiles_sort_key:
  "topFiles tree =
     take 8 (sort_key (\<lambda>e. - int (or_number (e_size e) 0))
               (filter (\<lambda>item. e_type item = ''blob'') tree))"
  by (simp add: topFiles_def sort_by_sort_key)

lemma sorted_wrt_take: "sorted_wrt P xs \<Longrightarrow> sorted_wrt P (take n xs)"
  by (metis append_take_drop_id sorted_wrt_append)

lemma topFiles_descending:
  "sorted_wrt (\<lambda>a b. or_number (e_size b) 0 \<le> or_number (e_size a) 0) (topFiles tree)"
proof -
  let ?f = "\<lambda>e. - int (or_number (e_size e) 0)"
  let ?s = "sort_key ?f (filter (\<lambda>item. e_type item = ''blob'') tree)"
  have "sorted (map ?f ?s)" by (rule sorted_sort_key)
  then have "sorted_wrt (\<lambda>a b. ?f a \<le> ?f b) ?s"
    by (simp add: sorted_map)
  then have "sorted_wrt (\<lambda>a b. or_number (e_size b) 0 \<le> or_number (e_size a) 0) ?s"
    by simp
  then show ?thesis
    unfolding topFiles_sort_key by (rule sorted_wrt_take)
qed

lemma topFiles_blobs: "f \<in> set (topFiles tree) \<Longrightarrow> f \<in> set tree \<and> e_type f = ''blob''"
  unfolding topFiles_sort_key by (auto dest: in_set_takeD)

lemma topFiles_example_files:
  "topFiles example_files =
     [\<lparr> e_path = ''big.bin'', e_type = ''blob'', e_size = Some 5000000, e_sha = None \<rparr>,
      \<lparr> e_path = ''small.txt'', e_type = ''blob'', e_size = Some 5000, e_sha = None \<rparr>,
      \<lparr> e_path = ''empty.txt'', e_type = ''blob'', e_size = None, e_sha = None \<rparr>]"
  by (simp add: topFiles_def example_files_def sort_by_def)

lemma topDirs_example_files: "topDirs example_files = []"
  by (simp add: topDirs_def dirs_def example_files_def)

lemma example_files_returns:
  "buildCityLayout (Some example_files) (Some example_meta) =
     Inr \<lparr> islands = core_station example_files example_meta #
                       directory_nodes example_files @ file_nodes example_files,
           connections = directory_edges example_files \<rparr>"
  by (rule buildCityLayout_primary) (simp add: example_files_def)

section \<open>File orbs\<close>

lemma file_node_fields:
  "i_scale (file_node tot f i) = Num (sizeToScale (or_number (e_size f) 1000))"
  "i_altitude (file_node tot f i) =
     Number (Num (2 + (if 50000 < or_number (e_size f) 1000 then 4 else 0)))"
  "i_fileSize (file_node tot f i) = Some (or_number (e_size f) 1000)"
  "i_originalPath (file_node tot f i) = Some (e_path f)"
  "i_id (file_node tot f i) = or_string (e_sha f) (''file-'' @ string_of_nat i)"
  by (simp_all add: file_node_def file_orb_def no_layout_def Let_def)

lemma or_number_1000:
  "(50000 < or_number sz 1000) = (50000 < or_number sz 0)"
  "sizeToScale (or_number sz 1000) = sizeToScale (or_number sz 0)"
  by (cases sz; simp add: sizeToScale_def)+

lemma sizeToScale_mono: "a \<le> b \<Longrightarrow> sizeToScale a \<le> sizeToScale b"
  by (simp add: sizeToScale_def)

text \<open>
  C8. On the primary path, the island of the \<open>k\<close>-th selected file, whose size \<open>s\<close> is the
  entry's size (an absent size reads as 0), is a sun iff \<open>s > 50000\<close> and a star otherwise,
  and its scale is the step function of \<open>s\<close> with the values 0.6, 0.9, 1.2, 1.6 and 2.0;
  of two selected files the larger never has the smaller scale, and a file of 5000000
  bytes has a strictly greater scale than one of 5000 bytes.
\<close>

theorem file_classification_and_scale:
  fixes repoMeta :: "'m repo_meta_scheme option"
  assumes "tree \<noteq> []" and "buildCityLayout (Some tree) repoMeta = Inr layout"
    and "j < length (topFiles tree)" and "k < length (topFiles tree)"
    and "a = or_number (e_size (topFiles tree ! j)) 0"
    and "b = or_number (e_size (topFiles tree ! k)) 0"
    and "nj = islands layout ! (1 + length (topDirs tree) + j)"
    and "nk = islands layout ! (1 + length (topDirs tree) + k)"
  shows "i_originalPath nk = Some (e_path (topFiles tree ! k)) \<and>
         i_type nk = (if 50000 < b then ''sun'' else ''star'') \<and>
         i_scale nk = Num (if b < 10000 then 0.6 else if b < 50000 then 0.9
                           else if b < 200000 then 1.2 else if b < 1000000 then 1.6 else 2.0) \<and>
         (\<exists>x y. i_scale nj = Num x \<and> i_scale nk = Num y \<and> (a \<le> b \<longrightarrow> x \<le> y) \<and>
                 (a = 5000 \<and> b = 5000000 \<longrightarrow> x < y)) \<and>
         (\<forall>p q. p \<le> q \<longrightarrow> sizeToScale p \<le> sizeToScale q)"
proof -
  have nj: "nj = file_node (length (topFiles tree)) (topFiles tree ! j) j"
    using nth_island_file [OF assms(1,2,3)] assms(7) by simp
  have nk: "nk = file_node (length (topFiles tree)) (topFiles tree ! k) k"
    using nth_island_file [OF assms(1,2,4)] assms(8) by simp
  have sj: "i_scale nj = Num (sizeToScale a)"
    by (simp add: nj file_node_fields or_number_1000 assms(5))
  have sk: "i_scale nk = Num (sizeToScale b)"
    by (simp add: nk file_node_fields or_number_1000 assms(6))
  have ty: "i_type nk = (if 50000 < b then ''sun'' else ''star'')"
    by (simp add: nk file_node_type or_number_1000 assms(6))
  have path: "i_originalPath nk = Some (e_path (topFiles tree ! k))"
    by (simp add: nk file_node_fields)
  have mono: "a \<le> b \<longrightarrow> sizeToScale a \<le> sizeToScale b"
    by (simp add: sizeToScale_mono)
  have mono_all: "\<forall>p q. p \<le> q \<longrightarrow> sizeToScale p \<le> sizeToScale q"
    by (simp add: sizeToScale_mono)
  have strict: "a = 5000 \<and> b = 5000000 \<longrightarrow> sizeToScale a < sizeToScale b"
    by (simp add: sizeToScale_def)
  have step: "sizeToScale b = (if b < 10000 then 0.6 else if b < 50000 then 0.9
                           else if b < 200000 then 1.2 else if b < 1000000 then 1.6 else 2.0)"
    by (simp add: sizeToScale_def)
  show ?thesis
    using path ty sj sk mono strict step mono_all by (simp only: simp_thms number.inject) blast
qed

theorem file_classification_and_scale_witness:
  "\<exists>layout nj nk.
     buildCityLayout (Some example_files) (Some example_meta) = Inr layout \<and>
     nj = islands layout ! (1 + length (topDirs example_files) + 1) \<and>
     nk = islands layout ! (1 + length (topDirs example_files) + 0) \<and>
     e_size (topFiles example_files ! 1) = Some 5000 \<and>
     e_size (topFiles example_files ! 0) = Some 5000000 \<and>
     i_originalPath nk = Some ''big.bin'' \<and> i_type nk = ''sun'' \<and> i_scale nk = Num 2 \<and>
     (\<exists>x y. i_scale nj = Num x \<and> i_scale nk = Num y \<and> x < y)"
proof -
  have ne: "example_files \<noteq> []" by (simp add: example_files_def)
  have len: "(1::nat) < length (topFiles example_files)" "(0::nat) < length (topFiles example_files)"
    by (simp_all add: topFiles_example_files)
  have a: "(5000::nat) = or_number (e_size (topFiles example_files ! 1)) 0"
    and b: "(5000000::nat) = or_number (e_size (topFiles example_files ! 0)) 0"
    by (simp_all add: topFiles_example_files)
  show ?thesis
    using file_classification_and_scale [OF ne example_files_returns len a b refl refl]
    by (simp add: topFiles_example_files example_files_returns) fastforce
qed

section \<open>Files without a size\<close>

text \<open>
  C10. A selected file whose size is absent or 0 is ranked by the sort with the key 0, the
  smallest there is, so only files with the key 0 follow it among the top files; but its
  island is built from the size 1000: it is a star of scale 0.6 and altitude 2, and its
  recorded \<open>fileSize\<close> is 1000.
\<close>

theorem absent_size_inconsistency:
  fixes repoMeta :: "'m repo_meta_scheme option"
  assumes "tree \<noteq> []" and "buildCityLayout (Some tree) repoMeta = Inr layout"
    and "k < length (topFiles tree)"
    and "e_size (topFiles tree ! k) = None \<or> e_size (topFiles tree ! k) = Some 0"
    and "n = islands layout ! (1 + length (topDirs tree) + k)"
  shows "or_number (e_size (topFiles tree ! k)) 0 = 0 \<and>
         (\<forall>j. k < j \<and> j < length (topFiles tree) \<longrightarrow>
              or_number (e_size (topFiles tree ! j)) 0 = 0) \<and>
         i_originalPath n = Some (e_path (topFiles tree ! k)) \<and>
         i_type n = ''star'' \<and> i_scale n = Num 0.6 \<and> i_altitude n = Number (Num 2) \<and>
         i_fileSize n = Some 1000"
proof -
  have key: "or_number (e_size (topFiles tree ! k)) 0 = 0"
    using assms(4) by auto
  have eff: "or_number (e_size (topFiles tree ! k)) 1000 = 1000"
    using assms(4) by auto
  have after: "\<forall>j. k < j \<and> j < length (topFiles tree) \<longrightarrow>
              or_number (e_size (topFiles tree ! j)) 0 = 0"
  proof (intro allI impI)
    fix j assume j: "k < j \<and> j < length (topFiles tree)"
    then have "or_number (e_size (topFiles tree ! j)) 0 \<le> or_number (e_size (topFiles tree ! k)) 0"
      using topFiles_descending [of tree] by (simp add: sorted_wrt_iff_nth_less)
    then show "or_number (e_size (topFiles tree ! j)) 0 = 0"
      using key by simp
  qed
  have n: "n = file_node (length (topFiles tree)) (topFiles tree ! k) k"
    using nth_island_file [OF assms(1,2,3)] assms(5) by simp
  have "i_originalPath n = Some (e_path (topFiles tree ! k))"
    and "i_type n = ''star''" and "i_scale n = Num 0.6"
    and "i_altitude n = Number (Num 2)" and "i_fileSize n = Some 1000"
    by (simp_all add: n file_node_fields file_node_type eff sizeToScale_def)
  with key after show ?thesis by blast
qed

theorem absent_size_inconsistency_witness:
  "\<exists>layout n.
     buildCityLayout (Some example_files) (Some example_meta) = Inr layout \<and>
     n = islands layout ! (1 + length (topDirs example_files) + 2) \<and>
     e_size (topFiles example_files ! 2) = None \<and>
     i_originalPath n = Some ''empty.txt'' \<and>
     i_type n = ''star'' \<and> i_scale n = Num 0.6 \<and> i_altitude n = Number (Num 2) \<and>
     i_fileSize n = Some 1000"
proof -
  have ne: "example_files \<noteq> []" by (simp add: example_files_def)
  have len: "(2::nat) < length (topFiles example_files)"
    by (simp add: topFiles_example_files)
  have absent: "e_size (topFiles example_files ! 2) = None \<or>
                e_size (topFiles example_files ! 2) = Some 0"
    by (simp add: topFiles_example_files)
  show ?thesis
    using absent_size_inconsistency [OF ne example_files_returns len absent refl]
    by (simp add: topFiles_example_files example_files_returns)
qed

section \<open>The tree normalizer\<close>

lemma topDirs_filter:
  "topDirs tree =
     take 16 (filter (\<lambda>e. e_type e = ''tree'' \<and> CHR ''/'' \<notin> set (e_path e)) tree)"
  by (simp add: topDirs_def dirs_def js_includes_def)

lemma length_topFiles:
  "length (topFiles tree) = min 8 (length (filter (\<lambda>e. e_type e = ''blob'') tree))"
  by (simp add: topFiles_sort_key min.commute)

lemma topFiles_largest:
  assumes "f \<in> set (topFiles tree)" and "g \<in> set tree" and "e_type g = ''blob''"
    and "g \<notin> set (topFiles tree)"
  shows "or_number (e_size g) 0 \<le> or_number (e_size f) 0"
proof -
  let ?f = "\<lambda>e. - int (or_number (e_size e) 0)"
  let ?s = "sort_key ?f (filter (\<lambda>item. e_type item = ''blob'') tree)"
  have "g \<in> set ?s" using assms(2,3) by simp
  then have "g \<in> set (take 8 ?s) \<union> set (drop 8 ?s)"
    by (metis append_take_drop_id set_append)
  then have g: "g \<in> set (drop 8 ?s)"
    using assms(4) by (simp add: topFiles_sort_key)
  have f: "f \<in> set (take 8 ?s)"
    using assms(1) by (simp add: topFiles_sort_key)
  have "sorted (map ?f (take 8 ?s @ drop 8 ?s))"
    by (simp only: append_take_drop_id sorted_sort_key)
  then have "?f f \<le> ?f g"
    using f g by (simp only: map_append sorted_append) (simp add: image_iff)
  then show ?thesis by simp
qed

lemma directory_node_fields:
  "i_originalPath (directory_node tot d i) = Some (e_path d)"
  "i_name (directory_node tot d i) = Some (pop (split CHR ''/'' (e_path d)))"
  "i_depth (directory_node tot d i) = Some (match_count CHR ''/'' (e_path d))"
  "i_altitude (directory_node tot d i) =
     getAltitude (pop (split CHR ''/'' (e_path d))) (match_count CHR ''/'' (e_path d))"
  "i_id (directory_node tot d i) = or_string (e_sha d) (''dir-'' @ string_of_nat i)"
  by (simp_all add: directory_node_def directory_island_def no_layout_def Let_def)

lemma filter_type_directory_nodes:
  "filter (\<lambda>n. i_type n = ty) (directory_nodes tree) =
     (if ty = ''directory'' then directory_nodes tree else [])"
  by (auto simp: directory_nodes_def filter_empty_conv filter_id_conv)

lemma filter_directory_file_nodes:
  "filter (\<lambda>n. i_type n = ''directory'') (file_nodes tree) = []"
  by (auto simp: file_nodes_def filter_empty_conv file_node_type split: if_splits)

lemma filter_orbs_file_nodes:
  "filter (\<lambda>n. i_type n = ''sun'' \<or> i_type n = ''star'') (file_nodes tree) = file_nodes tree"
  by (auto simp: file_nodes_def filter_id_conv file_node_type split: if_splits)

lemma directory_islands_primary:
  fixes repoMeta :: "'m repo_meta_scheme option"
  assumes "tree \<noteq> []" and "buildCityLayout (Some tree) repoMeta = Inr layout"
  shows "islands_of_type ''directory'' layout = directory_nodes tree"
proof -
  obtain meta :: "'m repo_meta_scheme"
    where "islands layout = core_station tree meta # directory_nodes tree @ file_nodes tree"
    using primary_layout [OF assms] by blast
  then show ?thesis
    by (simp add: islands_of_type_def filter_type_directory_nodes filter_directory_file_nodes
        core_station_def)
qed

lemma orb_islands_primary:
  fixes repoMeta :: "'m repo_meta_scheme option"
  assumes "tree \<noteq> []" and "buildCityLayout (Some tree) repoMeta = Inr layout"
  shows "filter (\<lambda>n. i_type n = ''sun'' \<or> i_type n = ''star'') (islands layout) = file_nodes tree"
proof -
  obtain meta :: "'m repo_meta_scheme"
    where "islands layout = core_station tree meta # directory_nodes tree @ file_nodes tree"
    using primary_layout [OF assms] by blast
  moreover have "filter (\<lambda>n. i_type n = ''sun'' \<or> i_type n = ''star'') (directory_nodes tree) = []"
    by (auto simp: directory_nodes_def filter_empty_conv)
  ultimately show ?thesis
    by (simp add: filter_orbs_file_nodes core_station_def)
qed

lemma map_originalPath_directory_nodes:
  "map i_originalPath (directory_nodes tree) = map (\<lambda>d. Some (e_path d)) (topDirs tree)"
  by (rule nth_equalityI) (simp_all add: nth_directory_nodes directory_node_fields)

lemma map_originalPath_file_nodes:
  "map i_originalPath (file_nodes tree) = map (\<lambda>f. Some (e_path f)) (topFiles tree)"
  by (rule nth_equalityI) (simp_all add: nth_file_nodes file_node_fields)

text \<open>
  C4. On the primary path the directory islands are built, in order, from the entries of
  type \<open>tree\<close> whose path contains no \<open>/\<close>, kept in input order and cut to the first
  16; the sun and star islands are built, in order, from the entries of type \<open>blob\<close>
  sorted stably by size (read as \<open>size || 0\<close>), largest first, and cut to the first 8.
  So the selected files are in descending order of size, there are 8 of them or as many as
  there are files, no file left out is larger than a selected one, and none of them is a
  directory entry.
\<close>

theorem tree_normalizer_contract:
  fixes repoMeta :: "'m repo_meta_scheme option"
  assumes "tree \<noteq> []" and "buildCityLayout (Some tree) repoMeta = Inr layout"
  shows "map i_originalPath (islands_of_type ''directory'' layout) =
           map (\<lambda>d. Some (e_path d)) (topDirs tree) \<and>
         topDirs tree =
           take 16 (filter (\<lambda>e. e_type e = ''tree'' \<and> CHR ''/'' \<notin> set (e_path e)) tree) \<and>
         map i_originalPath (filter (\<lambda>n. i_type n = ''sun'' \<or> i_type n = ''star'') (islands layout)) =
           map (\<lambda>f. Some (e_path f)) (topFiles tree) \<and>
         topFiles tree =
           take 8 (sort_key (\<lambda>e. - int (or_number (e_size e) 0))
                     (filter (\<lambda>e. e_type e = ''blob'') tree)) \<and>
         sorted_wrt (\<lambda>a b. or_number (e_size b) 0 \<le> or_number (e_size a) 0) (topFiles tree) \<and>
         length (topFiles tree) = min 8 (length (filter (\<lambda>e. e_type e = ''blob'') tree)) \<and>
         (\<forall>f \<in> set (topFiles tree). f \<in> set tree \<and> e_type f = ''blob'' \<and> e_type f \<noteq> ''tree'') \<and>
         (\<forall>f \<in> set (topFiles tree). \<forall>g \<in> set tree.
             e_type g = ''blob'' \<and> g \<notin> set (topFiles tree) \<longrightarrow>
             or_number (e_size g) 0 \<le> or_number (e_size f) 0)"
proof -
  have "map i_originalPath (islands_of_type ''directory'' layout) =
           map (\<lambda>d. Some (e_path d)) (topDirs tree)"
    by (simp only: directory_islands_primary [OF assms] map_originalPath_directory_nodes)
  moreover have "map i_originalPath
          (filter (\<lambda>n. i_type n = ''sun'' \<or> i_type n = ''star'') (islands layout)) =
           map (\<lambda>f. Some (e_path f)) (topFiles tree)"
    by (simp only: orb_islands_primary [OF assms] map_originalPath_file_nodes)
  moreover have "\<forall>f \<in> set (topFiles tree). f \<in> set tree \<and> e_type f = ''blob'' \<and> e_type f \<noteq> ''tree''"
    using topFiles_blobs [of _ tree] by auto
  moreover have "\<forall>f \<in> set (topFiles tree). \<forall>g \<in> set tree.
             e_type g = ''blob'' \<and> g \<notin> set (topFiles tree) \<longrightarrow>
             or_number (e_size g) 0 \<le> or_number (e_size f) 0"
    using topFiles_largest [of _ tree] by blast
  ultimately show ?thesis
    using topDirs_filter [of tree] topFiles_sort_key [of tree] topFiles_descending [of tree]
      length_topFiles [of tree]
    by (intro conjI)
qed

lemma topDirs_example_tree:
  "topDirs example_tree =
     [\<lparr> e_path = ''src'', e_type = ''tree'', e_size = None, e_sha = None \<rparr>,
      \<lparr> e_path = ''docs'', e_type = ''tree'', e_size = None, e_sha = None \<rparr>]"
  by (simp add: topDirs_def dirs_def js_includes_def example_tree_def)

lemma topFiles_example_tree:
  "topFiles example_tree =
     [\<lparr> e_path = ''src/index.js'', e_type = ''blob'', e_size = Some 80000, e_sha = None \<rparr>]"
  by (simp add: topFiles_def example_tree_def sort_by_def)

theorem tree_normalizer_contract_witness:
  "\<exists>layout. buildCityLayout (Some example_tree) (Some example_meta) = Inr layout \<and>
     map i_originalPath (islands_of_type ''directory'' layout) = [Some ''src'', Some ''docs''] \<and>
     map i_originalPath (filter (\<lambda>n. i_type n = ''sun'' \<or> i_type n = ''star'') (islands layout)) =
       [Some ''src/index.js'']"
proof -
  have ne: "example_tree \<noteq> []" by (simp add: example_tree_def)
  show ?thesis
    using tree_normalizer_contract [OF ne example_returns]
    by (simp add: topDirs_example_tree topFiles_example_tree example_returns)
qed

section \<open>Island ids\<close>

text \<open>
  C9. Unique paths do not make the ids unique: the id of an island is the entry's \<open>sha\<close>
  when it has one, and two files with the same content have the same \<open>sha\<close>. For the two
  entries \<open>a.txt\<close> and \<open>b.txt\<close> of equal content the layout has two islands with the id
  \<open>e69de29\<close>.
\<close>

theorem duplicate_island_ids:
  "distinct (map e_path duplicate_content_tree) \<and>
   (\<exists>layout. buildCityLayout (Some duplicate_content_tree) (Some example_meta) = Inr layout \<and>
      map i_id (islands layout) = [''core-station'', ''e69de29'', ''e69de29''] \<and>
      \<not> distinct (map i_id (islands layout)))"
proof -
  have ne: "duplicate_content_tree \<noteq> []" by (simp add: duplicate_content_tree_def)
  have files: "topFiles duplicate_content_tree = duplicate_content_tree"
    by (simp add: topFiles_def duplicate_content_tree_def sort_by_def)
  have dirs: "topDirs duplicate_content_tree = []"
    by (simp add: topDirs_def dirs_def duplicate_content_tree_def)
  have "map i_id (core_station duplicate_content_tree example_meta #
          directory_nodes duplicate_content_tree @ file_nodes duplicate_content_tree) =
        [''core-station'', ''e69de29'', ''e69de29'']"
    by (simp add: directory_nodes_def file_nodes_def files dirs core_station_def)
       (simp add: duplicate_content_tree_def file_node_fields)
  then show ?thesis
    by (simp add: buildCityLayout_primary [OF ne]) (simp add: duplicate_content_tree_def)
qed

section \<open>Determinism\<close>

text \<open>
  The layout reads four fields of each entry and the name of the repository, nothing else:
  cutting every record down to these fields does not change the result.
\<close>

lemma truncate_fields [simp]:
  "e_path (tree_entry.truncate e) = e_path e"
  "e_type (tree_entry.truncate e) = e_type e"
  "e_size (tree_entry.truncate e) = e_size e"
  "e_sha (tree_entry.truncate e) = e_sha e"
  "m_name (repo_meta.truncate m) = m_name m"
  by (simp_all add: tree_entry.truncate_def repo_meta.truncate_def)



















section \<open>Directory islands\<close>

lemma split_no_separator: "c \<notin> set s \<Longrightarrow> split c s = [s]"
  by (induction s) auto

lemma topDirs_top_level:
  "d \<in> set (topDirs tree) \<Longrightarrow> e_type d = ''tree'' \<and> CHR ''/'' \<notin> set (e_path d)"
  unfolding topDirs_filter by (auto dest: in_set_takeD)

lemma length_topDirs: "length (topDirs tree) \<le> 16"
  by (simp add: topDirs_def)

lemma top_level_name:
  "CHR ''/'' \<notin> set p \<Longrightarrow> pop (split CHR ''/'' p) = p \<and> match_count CHR ''/'' p = 0"
  by (auto simp add: split_no_separator pop_def match_count_def filter_empty_conv)

lemma foldl_charCodeAt:
  "foldl (\<lambda>acc ch. acc + charCodeAt ch) a name = a + sum_list (map charCodeAt name)"
  by (induction name arbitrary: a) simp_all

lemma nameToAngle_formula:
  "nameToAngle name i n =
     (real i / real n) * (2 * pi) + real (sum_list (map charCodeAt name) mod 30) * pi / 180"
  by (simp add: nameToAngle_def foldl_charCodeAt Let_def)

lemma directory_node_placement:
  "i_angle (directory_node tot d i) = Some (Num (nameToAngle (pop (split CHR ''/'' (e_path d))) i tot))"
  "i_orbitRadius (directory_node tot d i) = Some (Num (14 + sin (real i * 1.3) * 4))"
  "i_scale (directory_node tot d i) =
     arith (+) (Num 0.8) (arith (/) (toNumber (i_altitude (directory_node tot d i))) (Num 15))"
  "i_position (directory_node tot d i) =
     (Num (cos (nameToAngle (pop (split CHR ''/'' (e_path d))) i tot) * (14 + sin (real i * 1.3) * 4)),
      arith (-) (toNumber (i_altitude (directory_node tot d i))) (Num 5),
      Num (sin (nameToAngle (pop (split CHR ''/'' (e_path d))) i tot) * (14 + sin (real i * 1.3) * 4)))"
  by (simp_all add: directory_node_def directory_island_def no_layout_def Let_def
      ISLAND_RADIUS_BASE_def)

text \<open>
  C6. On the primary path, the island of the \<open>k\<close>-th of the \<open>n\<close> selected top-level
  directories, whose basename is its path, records the angle
  \<open>(k / n) * 2 * pi + ((sum of the code units of the name) mod 30) * pi / 180\<close>, a function
  of the name, \<open>k\<close> and \<open>n\<close> only, and the radius \<open>14 + sin (k * 1.3) * 4\<close>; its scale is
  \<open>0.8 + altitude / 15\<close> and its position
  \<open>(cos angle * radius, altitude - 5, sin angle * radius)\<close>, in JavaScript arithmetic on the
  altitude the resolver returned, hence in real arithmetic whenever that altitude is a
  number \<open>a\<close>.
\<close>

theorem directory_placement_formulas:
  fixes repoMeta :: "'m repo_meta_scheme option"
  assumes "tree \<noteq> []" and "buildCityLayout (Some tree) repoMeta = Inr layout"
    and "k < length (topDirs tree)"
    and "nd = islands layout ! (1 + k)"
    and "name = e_path (topDirs tree ! k)"
    and "angle = (real k / real (length (topDirs tree))) * (2 * pi)
                   + real (sum_list (map charCodeAt name) mod 30) * pi / 180"
    and "radius = 14 + sin (real k * 1.3) * 4"
  shows "i_name nd = Some name \<and>
         i_altitude nd = getAltitude name 0 \<and>
         angle = nameToAngle name k (length (topDirs tree)) \<and>
         i_angle nd = Some (Num angle) \<and>
         i_orbitRadius nd = Some (Num radius) \<and>
         i_scale nd = arith (+) (Num 0.8) (arith (/) (toNumber (i_altitude nd)) (Num 15)) \<and>
         i_position nd =
           (Num (cos angle * radius), arith (-) (toNumber (i_altitude nd)) (Num 5),
            Num (sin angle * radius)) \<and>
         (\<forall>a. i_altitude nd = Number (Num a) \<longrightarrow>
              i_scale nd = Num (0.8 + a / 15) \<and>
              i_position nd = (Num (cos angle * radius), Num (a - 5), Num (sin angle * radius)))"
proof -
  let ?d = "topDirs tree ! k"
  have nd: "nd = directory_node (length (topDirs tree)) ?d k"
    using nth_island_directory [OF assms(1,2,3)] assms(4) by simp
  have "?d \<in> set (topDirs tree)" using assms(3) by simp
  then have "CHR ''/'' \<notin> set (e_path ?d)" by (simp add: topDirs_top_level)
  then have base: "pop (split CHR ''/'' (e_path ?d)) = name" "match_count CHR ''/'' (e_path ?d) = 0"
    using top_level_name [of "e_path ?d"] assms(5) by simp_all
  have ang: "angle = nameToAngle name k (length (topDirs tree))"
    by (simp only: assms(6) nameToAngle_formula)
  have 1: "i_name nd = Some name" "i_altitude nd = getAltitude name 0"
    by (simp_all add: nd directory_node_fields base)
  have 2: "i_angle nd = Some (Num angle)" "i_orbitRadius nd = Some (Num radius)"
    by (simp_all add: nd directory_node_placement base ang assms(7))
  have 3: "i_scale nd = arith (+) (Num 0.8) (arith (/) (toNumber (i_altitude nd)) (Num 15))"
    unfolding nd by (rule directory_node_placement)
  have 4: "i_position nd =
           (Num (cos angle * radius), arith (-) (toNumber (i_altitude nd)) (Num 5),
            Num (sin angle * radius))"
    by (simp add: nd directory_node_placement base ang assms(7))
  have 5: "\<forall>a. i_altitude nd = Number (Num a) \<longrightarrow>
              i_scale nd = Num (0.8 + a / 15) \<and>
              i_position nd = (Num (cos angle * radius), Num (a - 5), Num (sin angle * radius))"
    using 3 4 by simp
  from 1 2 3 4 5 ang show ?thesis by blast
qed

lemma getAltitude_src: "getAltitude ''src'' 0 = Number (Num 12)"
  by (simp add: getAltitude_def toLowerCase_def lower_char_def charCodeAt_def get_property_def
      ALTITUDE_MAP_def)

lemma getAltitude_docs: "getAltitude ''docs'' 0 = Number (Num 1)"
  by (simp add: getAltitude_def toLowerCase_def lower_char_def charCodeAt_def get_property_def
      ALTITUDE_MAP_def)

theorem directory_placement_formulas_witness:
  "\<exists>layout nd.
     buildCityLayout (Some example_tree) (Some example_meta) = Inr layout \<and>
     nd = islands layout ! (1 + 1) \<and>
     i_name nd = Some ''docs'' \<and> i_altitude nd = Number (Num 1) \<and>
     i_angle nd = Some (Num ((1 / 2) * (2 * pi) + 5 * pi / 180)) \<and>
     i_orbitRadius nd = Some (Num (14 + sin 1.3 * 4)) \<and>
     i_scale nd = Num (0.8 + 1 / 15) \<and>
     fst (snd (i_position nd)) = Num (1 - 5)"
proof -
  have ne: "example_tree \<noteq> []" by (simp add: example_tree_def)
  have len: "(1::nat) < length (topDirs example_tree)"
    by (simp add: topDirs_example_tree)
  have name: "''docs'' = e_path (topDirs example_tree ! 1)"
    by (simp add: topDirs_example_tree)
  have hash: "sum_list (map charCodeAt ''docs'') mod 30 = 5"
    by (simp add: charCodeAt_def)
  have n: "length (topDirs example_tree) = 2"
    by (simp add: topDirs_example_tree)
  obtain layout where ret: "buildCityLayout (Some example_tree) (Some example_meta) = Inr layout"
    using example_returns by blast
  define nd where "nd = islands layout ! (1 + 1)"
  note T = directory_placement_formulas [OF ne ret len nd_def name refl refl]
  from T have 1: "i_name nd = Some ''docs''" by blast
  from T have "i_altitude nd = getAltitude ''docs'' 0" by blast
  then have alt: "i_altitude nd = Number (Num 1)" by (simp only: getAltitude_docs)
  from T have "i_angle nd = Some (Num ((real (1::nat) / real (length (topDirs example_tree))) * (2 * pi)
                   + real (sum_list (map charCodeAt ''docs'') mod 30) * pi / 180))" by blast
  then have 2: "i_angle nd = Some (Num ((1 / 2) * (2 * pi) + 5 * pi / 180))"
    by (simp only: hash n) simp
  from T have "i_orbitRadius nd = Some (Num (14 + sin (real (1::nat) * 1.3) * 4))" by blast
  then have 3: "i_orbitRadius nd = Some (Num (14 + sin 1.3 * 4))" by simp
  from T have "i_scale nd = arith (+) (Num 0.8) (arith (/) (toNumber (i_altitude nd)) (Num 15))"
    by blast
  then have 4: "i_scale nd = Num (0.8 + 1 / 15)" by (simp add: alt)
  from T have "fst (snd (i_position nd)) = arith (-) (toNumber (i_altitude nd)) (Num 5)"
    by force
  then have 5: "fst (snd (i_position nd)) = Num (1 - 5)" by (simp add: alt)
  from ret nd_def 1 alt 2 3 4 5 show ?thesis by blast
qed

section \<open>Where the islands lie\<close>

text \<open>
  The radius of the \<open>i\<close>-th directory island is \<open>14 + 4 * sin (1.3 * i)\<close>. That these
  radii are pairwise different for the at most 16 directories, and never 10, rests on
  \<open>3.13 < pi < 3.15\<close>, obtained from the Taylor polynomial of degree 6 of the cosine.
\<close>

lemma cos_poly_8:
  "(\<Sum>m<8. cos_coeff m * x ^ m) = 1 - x^2 / 2 + x^4 / 24 - x^6 / 720"
proof -
  have set: "{..<8::nat} = {0, 1, 2, 3, 4, 5, 6, 7}" by auto
  have coeff: "cos_coeff 0 = 1" "cos_coeff 1 = 0" "cos_coeff 2 = - 1 / 2" "cos_coeff 3 = 0"
    "cos_coeff 4 = 1 / 24" "cos_coeff 5 = 0" "cos_coeff 6 = - 1 / 720" "cos_coeff 7 = 0" "cos_coeff (Suc 0) = 0"
    by (simp_all add: cos_coeff_def fact_numeral)
  show ?thesis
    unfolding set by (simp add: coeff)
qed

lemma cos_taylor_8:
  assumes "0 < (x::real)"
  shows "1 - x^2 / 2 + x^4 / 24 - x^6 / 720 - x^8 / 40320 \<le> cos x"
    and "cos x \<le> 1 - x^2 / 2 + x^4 / 24 - x^6 / 720 + x^8 / 40320"
proof -
  obtain t where t: "cos x = (\<Sum>m<8. cos_coeff m * x ^ m) + (cos (t + 1/2 * real (8::nat) * pi) / fact 8) * x ^ 8"
    using Maclaurin_cos_expansion2 [OF assms, of 8] by auto
  let ?c = "cos (t + 1/2 * real (8::nat) * pi)"
  have f: "(fact 8 :: real) = 40320" by (simp add: fact_numeral)
  have x8: "0 \<le> x ^ 8 / 40320" using assms by simp
  have "- 1 \<le> ?c" "?c \<le> 1" by simp_all
  then have "- 1 * (x ^ 8 / 40320) \<le> ?c * (x ^ 8 / 40320)" "?c * (x ^ 8 / 40320) \<le> 1 * (x ^ 8 / 40320)"
    using x8 by (simp_all only: mult_right_mono)
  moreover have "cos x = 1 - x^2 / 2 + x^4 / 24 - x^6 / 720 + ?c * (x ^ 8 / 40320)"
    unfolding t cos_poly_8 f by simp
  ultimately show "1 - x^2 / 2 + x^4 / 24 - x^6 / 720 - x^8 / 40320 \<le> cos x"
    and "cos x \<le> 1 - x^2 / 2 + x^4 / 24 - x^6 / 720 + x^8 / 40320"
    by linarith+
qed

lemma cos_1565_pos: "0 < cos (1.565::real)"
proof -
  have "1 - (1.565::real)^2 / 2 + 1.565^4 / 24 - 1.565^6 / 720 - 1.565^8 / 40320 \<le> cos 1.565"
    by (rule cos_taylor_8) simp
  moreover have "0 < 1 - (1.565::real)^2 / 2 + 1.565^4 / 24 - 1.565^6 / 720 - 1.565^8 / 40320"
    by (simp add: power_def)
  ultimately show ?thesis by linarith
qed

lemma cos_1575_neg: "cos (1.575::real) < 0"
proof -
  have "cos 1.575 \<le> 1 - (1.575::real)^2 / 2 + 1.575^4 / 24 - 1.575^6 / 720 + 1.575^8 / 40320"
    by (rule cos_taylor_8) simp
  moreover have "1 - (1.575::real)^2 / 2 + 1.575^4 / 24 - 1.575^6 / 720 + 1.575^8 / 40320 < 0"
    by (simp add: power_def)
  ultimately show ?thesis by linarith
qed

lemma pi_gt_313: "3.13 < pi"
proof (rule ccontr)
  assume "\<not> 3.13 < pi"
  then have "pi / 2 \<le> 1.565" by simp
  moreover have "(1.565::real) \<le> pi" using pi_ge_two by simp
  ultimately have "cos 1.565 \<le> cos (pi / 2)"
    by (intro cos_monotone_0_pi_le) simp_all
  then show False using cos_1565_pos by simp
qed

lemma pi_lt_315: "pi < 3.15"
proof (rule ccontr)
  assume "\<not> pi < 3.15"
  then have "1.575 \<le> pi / 2" by simp
  then have "cos (pi / 2) \<le> cos 1.575"
    by (intro cos_monotone_0_pi_le) simp_all
  then show False using cos_1575_neg by simp
qed


lemma sin_eq_cases:
  fixes a b :: real
  assumes "sin a = sin b"
  shows "(\<exists>k::int. a - b = 2 * of_int k * pi) \<or> (\<exists>k::int. a + b = (2 * of_int k + 1) * pi)"
proof -
  have "2 * sin ((a - b) / 2) * cos ((a + b) / 2) = 0"
    using assms sin_diff_sin [of a b] by simp
  then consider "sin ((a - b) / 2) = 0" | "cos ((a + b) / 2) = 0" by auto
  then show ?thesis
  proof cases
    case 1
    then obtain k :: int where "(a - b) / 2 = of_int k * pi"
      using sin_zero_iff_int2 by blast
    then have "a - b = 2 * of_int k * pi" by simp
    then show ?thesis by blast
  next
    case 2
    then obtain k :: int where "(a + b) / 2 = of_int k * pi + pi / 2"
      using cos_zero_iff_int2 by blast
    then have "a + b = (2 * of_int k + 1) * pi" by (simp add: algebra_simps)
    then show ?thesis by blast
  qed
qed

lemma int_gap:
  fixes d a :: int and x :: real
  assumes "of_int d = x" and "of_int a < x" and "x < of_int a + 1"
  shows False
proof -
  have "(of_int a :: real) < of_int d" "(of_int d :: real) < of_int (a + 1)"
    using assms by simp_all
  then have "a < d" "d < a + 1" by (simp_all only: of_int_less_iff)
  then show False by simp
qed

lemma no_even_multiple:
  fixes d k :: int
  assumes "d \<noteq> 0" and "\<bar>d\<bar> \<le> 15"
  shows "of_int d * 1.3 \<noteq> 2 * of_int k * pi"
proof
  assume eq: "of_int d * 1.3 = 2 * of_int k * pi"
  have b: "313 / 100 < pi" "pi < 315 / 100" using pi_gt_313 pi_lt_315 by simp_all
  have d: "- 15 \<le> (of_int d :: real)" "(of_int d :: real) \<le> 15"
    using assms(2) by (simp_all add: abs_le_iff)
  define P where "P = of_int k * pi"
  have eq': "of_int d = 20 * P / 13" using eq by (simp add: P_def)
  have up: "k \<le> 3"
  proof (rule ccontr)
    assume "\<not> k \<le> 3"
    then have "4 \<le> (of_int k :: real)" by simp
    then have "4 * pi \<le> P" unfolding P_def by (simp add: mult_right_mono)
    then show False using eq' b d by linarith
  qed
  have lo: "- 3 \<le> k"
  proof (rule ccontr)
    assume "\<not> - 3 \<le> k"
    then have "(of_int k :: real) \<le> - 4" by simp
    then have "P \<le> (- 4) * pi" unfolding P_def by (intro mult_right_mono) simp_all
    then show False using eq' b d by linarith
  qed
  from lo up consider "k = - 3" | "k = - 2" | "k = - 1" | "k = 0" | "k = 1" | "k = 2" | "k = 3"
    by linarith
  then show False
  proof cases
    case 1
    then have "P = - 3 * pi" by (simp add: P_def)
    then show False using b by (intro int_gap [OF eq', of "- 15"]) simp_all
  next
    case 2
    then have "P = - 2 * pi" by (simp add: P_def)
    then show False using b by (intro int_gap [OF eq', of "- 10"]) simp_all
  next
    case 3
    then have "P = - 1 * pi" by (simp add: P_def)
    then show False using b by (intro int_gap [OF eq', of "- 5"]) simp_all
  next
    case 4
    then show False using eq assms(1) by simp
  next
    case 5
    then have "P = 1 * pi" by (simp add: P_def)
    then show False using b by (intro int_gap [OF eq', of 4]) simp_all
  next
    case 6
    then have "P = 2 * pi" by (simp add: P_def)
    then show False using b by (intro int_gap [OF eq', of 9]) simp_all
  next
    case 7
    then have "P = 3 * pi" by (simp add: P_def)
    then show False using b by (intro int_gap [OF eq', of 14]) simp_all
  qed
qed

lemma no_odd_multiple:
  fixes s :: nat and k :: int
  assumes "s \<le> 30"
  shows "real s * 1.3 \<noteq> (2 * of_int k + 1) * pi"
proof
  assume eq: "real s * 1.3 = (2 * of_int k + 1) * pi"
  have b: "313 / 100 < pi" "pi < 315 / 100" using pi_gt_313 pi_lt_315 by simp_all
  have s: "0 \<le> real s" "real s \<le> 30" using assms by simp_all
  define P where "P = of_int k * pi"
  have "real s * 1.3 = 2 * P + pi" using eq by (simp add: P_def algebra_simps)
  then have eq': "of_int (int s) = (20 * P + 10 * pi) / 13" by simp
  have up: "k \<le> 5"
  proof (rule ccontr)
    assume "\<not> k \<le> 5"
    then have "6 \<le> (of_int k :: real)" by simp
    then have "6 * pi \<le> P" unfolding P_def by (simp add: mult_right_mono)
    then show False using eq' b s by simp
  qed
  have lo: "0 \<le> k"
  proof (rule ccontr)
    assume "\<not> 0 \<le> k"
    then have "(of_int k :: real) \<le> - 1" by simp
    then have "P \<le> (- 1) * pi" unfolding P_def by (intro mult_right_mono) simp_all
    then show False using eq' b s by simp
  qed
  from lo up consider "k = 0" | "k = 1" | "k = 2" | "k = 3" | "k = 4" | "k = 5"
    by linarith
  then show False
  proof cases
    case 1
    then have "P = 0 * pi" by (simp add: P_def)
    then show False using b by (intro int_gap [OF eq', of 2]) simp_all
  next
    case 2
    then have "P = 1 * pi" by (simp add: P_def)
    then show False using b by (intro int_gap [OF eq', of 7]) simp_all
  next
    case 3
    then have "P = 2 * pi" by (simp add: P_def)
    then show False using b by (intro int_gap [OF eq', of 12]) simp_all
  next
    case 4
    then have "P = 3 * pi" by (simp add: P_def)
    then show False using b by (intro int_gap [OF eq', of 16]) simp_all
  next
    case 5
    then have "P = 4 * pi" by (simp add: P_def)
    then show False using b by (intro int_gap [OF eq', of 21]) simp_all
  next
    case 6
    then have "P = 5 * pi" by (simp add: P_def)
    then show False using b by (intro int_gap [OF eq', of 26]) simp_all
  qed
qed

lemma sin_index_inj:
  fixes i j :: nat
  assumes "i < 16" and "j < 16" and "sin (real i * 1.3) = sin (real j * 1.3)"
  shows "i = j"
proof (rule ccontr)
  assume ne: "i \<noteq> j"
  from sin_eq_cases [OF assms(3)] show False
  proof (elim disjE exE)
    fix k :: int
    assume "real i * 1.3 - real j * 1.3 = 2 * of_int k * pi"
    then have "of_int (int i - int j) * 1.3 = 2 * of_int k * pi"
      by (simp add: algebra_simps)
    moreover have "int i - int j \<noteq> 0" "\<bar>int i - int j\<bar> \<le> 15"
      using ne assms(1,2) by simp_all
    ultimately show False using no_even_multiple by blast
  next
    fix k :: int
    assume "real i * 1.3 + real j * 1.3 = (2 * of_int k + 1) * pi"
    then have "real (i + j) * 1.3 = (2 * of_int k + 1) * pi"
      by (simp add: algebra_simps)
    moreover have "i + j \<le> 30" using assms(1,2) by simp
    ultimately show False using no_odd_multiple by blast
  qed
qed

lemma sin_index_not_minus_one:
  fixes i :: nat
  assumes "i < 16"
  shows "sin (real i * 1.3) \<noteq> - 1"
proof
  assume "sin (real i * 1.3) = - 1"
  then have "cos (real i * 1.3) = 0"
    using sin_cos_squared_add [of "real i * 1.3"] by simp
  then obtain k :: int where "real i * 1.3 = of_int k * pi + pi / 2"
    using cos_zero_iff_int2 by blast
  then have "real (2 * i) * 1.3 = (2 * of_int k + 1) * pi"
    by (simp add: algebra_simps)
  moreover have "2 * i \<le> 30" using assms by simp
  ultimately show False using no_odd_multiple by blast
qed

lemma radius_of_position:
  fixes r q :: real
  assumes "(Num (cos a * r), y, Num (sin a * r)) = (Num (cos b * q), y', Num (sin b * q))"
    and "0 \<le> r" and "0 \<le> q"
  shows "r = q"
proof -
  have x: "cos a * r = cos b * q" and z: "sin a * r = sin b * q"
    using assms(1) by simp_all
  have "r\<^sup>2 = (cos a * r)\<^sup>2 + (sin a * r)\<^sup>2"
    using sin_cos_squared_add2 [of a] by (simp add: power_mult_distrib flip: distrib_right)
  also have "\<dots> = (cos b * q)\<^sup>2 + (sin b * q)\<^sup>2"
    by (simp only: x z)
  also have "\<dots> = q\<^sup>2"
    using sin_cos_squared_add2 [of b] by (simp add: power_mult_distrib flip: distrib_right)
  finally show ?thesis
    using assms(2,3) by (simp only: power2_eq_iff_nonneg)
qed

lemma radius_of_origin:
  fixes r :: real
  assumes "(Num (cos a * r), y, Num (sin a * r)) = (Num 0, y', Num 0)"
  shows "r = 0"
proof -
  have x: "cos a * r = 0" and z: "sin a * r = 0"
    using assms by simp_all
  have "r\<^sup>2 = (cos a * r)\<^sup>2 + (sin a * r)\<^sup>2"
    using sin_cos_squared_add2 [of a] by (simp add: power_mult_distrib flip: distrib_right)
  then show ?thesis by (simp add: x z)
qed

lemma directory_radius_bounds: "10 \<le> 14 + sin x * 4" "14 + sin x * 4 \<le> (18::real)"
  using sin_ge_minus_one [of x] sin_le_one [of x] by linarith+

lemma directory_node_position:
  "\<exists>a y. i_position (directory_node tot d i) =
     (Num (cos a * (14 + sin (real i * 1.3) * 4)), y, Num (sin a * (14 + sin (real i * 1.3) * 4)))"
  using directory_node_placement(4) [of tot d i] by blast

lemma file_node_placement:
  "i_position (file_node tot f i) =
     (Num (cos ((real i / real tot) * pi * 2 + pi / 4) * (6 + real (i mod 3) * 2)),
      Num (2 + (if 50000 < or_number (e_size f) 1000 then 4 else 0) - 3),
      Num (sin ((real i / real tot) * pi * 2 + pi / 4) * (6 + real (i mod 3) * 2)))"
  by (simp add: file_node_def file_orb_def no_layout_def Let_def)

lemma file_node_position:
  "\<exists>b y. i_position (file_node tot f i) =
     (Num (cos b * (6 + real (i mod 3) * 2)), y, Num (sin b * (6 + real (i mod 3) * 2)))"
  using file_node_placement [of tot f i] by blast

lemma directory_positions_distinct:
  assumes "j < 16" and "k < 16"
    and "i_position (directory_node tot d j) = i_position (directory_node tot' d' k)"
  shows "j = k"
proof -
  obtain a y where pj: "i_position (directory_node tot d j) =
     (Num (cos a * (14 + sin (real j * 1.3) * 4)), y, Num (sin a * (14 + sin (real j * 1.3) * 4)))"
    using directory_node_position by blast
  obtain b y' where pk: "i_position (directory_node tot' d' k) =
     (Num (cos b * (14 + sin (real k * 1.3) * 4)), y', Num (sin b * (14 + sin (real k * 1.3) * 4)))"
    using directory_node_position by blast
  have "14 + sin (real j * 1.3) * 4 = 14 + sin (real k * 1.3) * 4"
  proof (rule radius_of_position)
    show "(Num (cos a * (14 + sin (real j * 1.3) * 4)), y, Num (sin a * (14 + sin (real j * 1.3) * 4))) =
          (Num (cos b * (14 + sin (real k * 1.3) * 4)), y', Num (sin b * (14 + sin (real k * 1.3) * 4)))"
      using assms(3) by (simp only: pj pk)
    show "0 \<le> 14 + sin (real j * 1.3) * 4" "0 \<le> 14 + sin (real k * 1.3) * 4"
      using directory_radius_bounds(1) [of "real j * 1.3"] directory_radius_bounds(1) [of "real k * 1.3"]
      by simp_all
  qed
  then have "sin (real j * 1.3) = sin (real k * 1.3)" by simp
  then show ?thesis using assms(1,2) by (rule sin_index_inj [rotated 2])
qed

lemma directory_not_file_position:
  assumes "k < 16"
  shows "i_position (directory_node tot d k) \<noteq> i_position (file_node tot' f i)"
proof
  assume eq: "i_position (directory_node tot d k) = i_position (file_node tot' f i)"
  obtain a y where pk: "i_position (directory_node tot d k) =
     (Num (cos a * (14 + sin (real k * 1.3) * 4)), y, Num (sin a * (14 + sin (real k * 1.3) * 4)))"
    using directory_node_position by blast
  obtain b y' where pf: "i_position (file_node tot' f i) =
     (Num (cos b * (6 + real (i mod 3) * 2)), y', Num (sin b * (6 + real (i mod 3) * 2)))"
    using file_node_position by blast
  have "14 + sin (real k * 1.3) * 4 = 6 + real (i mod 3) * 2"
  proof (rule radius_of_position)
    show "(Num (cos a * (14 + sin (real k * 1.3) * 4)), y, Num (sin a * (14 + sin (real k * 1.3) * 4))) =
          (Num (cos b * (6 + real (i mod 3) * 2)), y', Num (sin b * (6 + real (i mod 3) * 2)))"
      using eq by (simp only: pk pf)
    show "0 \<le> 14 + sin (real k * 1.3) * 4"
      using directory_radius_bounds(1) [of "real k * 1.3"] by simp
    show "0 \<le> 6 + real (i mod 3) * 2" by simp
  qed
  moreover have "real (i mod 3) \<le> 2"
  proof -
    have "i mod 3 \<le> 2" by simp
    then have "real (i mod 3) \<le> real 2" by (rule iffD2 [OF of_nat_le_iff])
    then show ?thesis by simp
  qed
  moreover have "- 1 \<le> sin (real k * 1.3)" by simp
  ultimately have "sin (real k * 1.3) = - 1" by linarith
  then show False using sin_index_not_minus_one [OF assms] by simp
qed

lemma directory_not_origin:
  "i_position (directory_node tot d k) \<noteq> (Num 0, Num 0, Num 0)"
proof
  assume eq: "i_position (directory_node tot d k) = (Num 0, Num 0, Num 0)"
  obtain a y where "i_position (directory_node tot d k) =
     (Num (cos a * (14 + sin (real k * 1.3) * 4)), y, Num (sin a * (14 + sin (real k * 1.3) * 4)))"
    using directory_node_position by blast
  then have "14 + sin (real k * 1.3) * 4 = 0"
    using eq radius_of_origin by metis
  then show False using directory_radius_bounds(1) [of "real k * 1.3"] by simp
qed

lemma file_not_origin:
  "i_position (file_node tot f i) \<noteq> (Num 0, Num 0, Num 0)"
proof
  assume eq: "i_position (file_node tot f i) = (Num 0, Num 0, Num 0)"
  obtain b y where "i_position (file_node tot f i) =
     (Num (cos b * (6 + real (i mod 3) * 2)), y, Num (sin b * (6 + real (i mod 3) * 2)))"
    using file_node_position by blast
  then have "6 + real (i mod 3) * 2 = 0"
    using eq radius_of_origin by metis
  then show False by linarith
qed

lemma directory_edge_fields:
  "c_from (directory_edge tot d i) = (Num 0, Num 0, Num 0)"
  "c_to (directory_edge tot d i) = i_position (directory_node tot d i)"
  "c_isPrimary (directory_edge tot d i) = greater (toNumber (i_altitude (directory_node tot d i))) 7"
  "c_thickness (directory_edge tot d i) =
     (if greater (toNumber (i_altitude (directory_node tot d i))) 8 then 2 else 1)"
  "c_id (directory_edge tot d i) = ''conn-core-'' @ string_of_nat i"
  by (simp_all add: directory_edge_def directory_node_def directory_island_def no_layout_def Let_def)

section \<open>Connections\<close>

lemma in_directory_nodes:
  fixes tree :: "'e tree_entry_scheme list"
  shows "n \<in> set (directory_nodes tree) \<Longrightarrow>
    \<exists>(d :: 'e tree_entry_scheme) i. n = directory_node (length (topDirs tree)) d i"
  by (auto simp: directory_nodes_def)

lemma in_file_nodes:
  fixes tree :: "'e tree_entry_scheme list"
  shows "n \<in> set (file_nodes tree) \<Longrightarrow>
    \<exists>(f :: 'e tree_entry_scheme) i. n = file_node (length (topFiles tree)) f i"
  by (auto simp: file_nodes_def)

lemma core_station_fields:
  "i_type (core_station tree meta) = ''core''"
  "i_position (core_station tree meta) = (Num 0, Num 0, Num 0)"
  "i_id (core_station tree meta) = ''core-station''"
  by (simp_all add: core_station_def)

lemma greater_number: "greater (toNumber (Number (Num a))) c = (c < a)"
  by simp

text \<open>
  C5. On the primary path there are as many connections as directory islands, and the
  \<open>k\<close>-th connection runs from \<open>(0,0,0)\<close> to the position of the \<open>k\<close>-th directory island.
  No other directory island lies at that position, and no island that is not a directory
  (the core, a sun, a star) does; the only island at the start \<open>(0,0,0)\<close> is the core. So
  every connection joins the core to exactly one directory, none joins two islands other
  than the core, and none touches a file. \<open>isPrimary\<close> is \<open>altitude > 7\<close> and the thickness
  is 2 if \<open>altitude > 8\<close> and 1 otherwise, for the altitude of that directory.
\<close>

theorem edge_correspondence:
  fixes repoMeta :: "'m repo_meta_scheme option" and tree :: "'e tree_entry_scheme list"
  assumes "tree \<noteq> []" and "buildCityLayout (Some tree) repoMeta = Inr layout"
    and "ds = islands_of_type ''directory'' layout"
  shows "length (connections layout) = length ds \<and>
    (\<forall>k < length (connections layout).
       c_from (connections layout ! k) = (Num 0, Num 0, Num 0) \<and>
       c_to (connections layout ! k) = i_position (ds ! k) \<and>
       (\<forall>j < length ds. i_position (ds ! j) = c_to (connections layout ! k) \<longrightarrow> j = k) \<and>
       (\<forall>n \<in> set (islands layout).
           i_type n \<noteq> ''directory'' \<longrightarrow> i_position n \<noteq> c_to (connections layout ! k)) \<and>
       (\<forall>n \<in> set (islands layout).
           i_position n = c_from (connections layout ! k) \<longrightarrow> i_type n = ''core'') \<and>
       c_isPrimary (connections layout ! k) = greater (toNumber (i_altitude (ds ! k))) 7 \<and>
       c_thickness (connections layout ! k) =
         (if greater (toNumber (i_altitude (ds ! k))) 8 then 2 else 1) \<and>
       (\<forall>a. i_altitude (ds ! k) = Number (Num a) \<longrightarrow>
            (c_isPrimary (connections layout ! k) \<longleftrightarrow> 7 < a) \<and>
            c_thickness (connections layout ! k) = (if 8 < a then 2 else 1)))"
proof -
  let ?n = "length (topDirs tree)"
  obtain meta :: "'m repo_meta_scheme"
    where isl: "islands layout = core_station tree meta # directory_nodes tree @ file_nodes tree"
      and con: "connections layout = directory_edges tree"
    using primary_layout [OF assms(1,2)] by blast
  have ds: "ds = directory_nodes tree"
    using directory_islands_primary [OF assms(1,2)] assms(3) by simp
  have len: "length (connections layout) = length ds"
    by (simp add: con ds)
  have each: "c_from (connections layout ! k) = (Num 0, Num 0, Num 0) \<and>
       c_to (connections layout ! k) = i_position (ds ! k) \<and>
       (\<forall>j < length ds. i_position (ds ! j) = c_to (connections layout ! k) \<longrightarrow> j = k) \<and>
       (\<forall>n \<in> set (islands layout).
           i_type n \<noteq> ''directory'' \<longrightarrow> i_position n \<noteq> c_to (connections layout ! k)) \<and>
       (\<forall>n \<in> set (islands layout).
           i_position n = c_from (connections layout ! k) \<longrightarrow> i_type n = ''core'') \<and>
       c_isPrimary (connections layout ! k) = greater (toNumber (i_altitude (ds ! k))) 7 \<and>
       c_thickness (connections layout ! k) =
         (if greater (toNumber (i_altitude (ds ! k))) 8 then 2 else 1) \<and>
       (\<forall>a. i_altitude (ds ! k) = Number (Num a) \<longrightarrow>
            (c_isPrimary (connections layout ! k) \<longleftrightarrow> 7 < a) \<and>
            c_thickness (connections layout ! k) = (if 8 < a then 2 else 1))"
    if k: "k < length (connections layout)" for k
  proof -
    have kn: "k < ?n" using k by (simp add: con)
    have k16: "k < 16" using kn length_topDirs [of tree] by simp
    let ?e = "connections layout ! k"
    have e: "?e = directory_edge ?n (topDirs tree ! k) k"
      by (simp add: con nth_directory_edges kn)
    have d: "ds ! k = directory_node ?n (topDirs tree ! k) k"
      by (simp add: ds nth_directory_nodes kn)
    have "from": "c_from ?e = (Num 0, Num 0, Num 0)"
      by (simp only: e directory_edge_fields)
    have to: "c_to ?e = i_position (ds ! k)"
      by (simp only: e d directory_edge_fields)
    have prim: "c_isPrimary ?e = greater (toNumber (i_altitude (ds ! k))) 7"
      by (simp only: e d directory_edge_fields)
    have thick: "c_thickness ?e = (if greater (toNumber (i_altitude (ds ! k))) 8 then 2 else 1)"
      by (simp only: e d directory_edge_fields)
    have num: "\<forall>a. i_altitude (ds ! k) = Number (Num a) \<longrightarrow>
            (c_isPrimary ?e \<longleftrightarrow> 7 < a) \<and> c_thickness ?e = (if 8 < a then 2 else 1)"
      by (simp add: prim thick)
    have one: "\<forall>j < length ds. i_position (ds ! j) = c_to ?e \<longrightarrow> j = k"
    proof (intro allI impI)
      fix j assume j: "j < length ds" and eq: "i_position (ds ! j) = c_to ?e"
      have jn: "j < ?n" using j by (simp add: ds)
      have j16: "j < 16" using jn length_topDirs [of tree] by simp
      have "ds ! j = directory_node ?n (topDirs tree ! j) j"
        by (simp add: ds nth_directory_nodes jn)
      then show "j = k"
        using eq directory_positions_distinct [OF j16 k16] by (simp add: to d)
    qed
    have others: "\<forall>n \<in> set (islands layout). i_type n \<noteq> ''directory'' \<longrightarrow> i_position n \<noteq> c_to ?e"
    proof (intro ballI impI)
      fix n assume n: "n \<in> set (islands layout)" and ty: "i_type n \<noteq> ''directory''"
      from n consider "n = core_station tree meta" | "n \<in> set (directory_nodes tree)"
        | "n \<in> set (file_nodes tree)"
        by (auto simp: isl)
      then show "i_position n \<noteq> c_to ?e"
      proof cases
        case 1
        then show ?thesis
          using directory_not_origin [of ?n "topDirs tree ! k" k]
          by (simp add: to d core_station_fields)
      next
        case 2
        then show ?thesis using ty in_directory_nodes by fastforce
      next
        case 3
        then obtain f :: "'e tree_entry_scheme" and i
          where "n = file_node (length (topFiles tree)) f i"
          using in_file_nodes by blast
        then show ?thesis
          using directory_not_file_position [OF k16, of ?n "topDirs tree ! k" "length (topFiles tree)" f i]
          by (simp add: to d)
      qed
    qed
    have start: "\<forall>n \<in> set (islands layout). i_position n = c_from ?e \<longrightarrow> i_type n = ''core''"
    proof (intro ballI impI)
      fix n assume n: "n \<in> set (islands layout)" and eq: "i_position n = c_from ?e"
      from n consider "n = core_station tree meta" | "n \<in> set (directory_nodes tree)"
        | "n \<in> set (file_nodes tree)"
        by (auto simp: isl)
      then show "i_type n = ''core''"
      proof cases
        case 1
        then show ?thesis by (simp add: core_station_fields)
      next
        case 2
        then obtain d' :: "'e tree_entry_scheme" and i where "n = directory_node ?n d' i"
          using in_directory_nodes by blast
        then show ?thesis using eq directory_not_origin [of ?n d' i] by (simp add: "from")
      next
        case 3
        then obtain f :: "'e tree_entry_scheme" and i
          where "n = file_node (length (topFiles tree)) f i"
          using in_file_nodes by blast
        then show ?thesis
          using eq file_not_origin [of "length (topFiles tree)" f i] by (simp add: "from")
      qed
    qed
    from "from" to one others start prim thick num show ?thesis by (intro conjI)
  qed
  from len each show ?thesis by blast
qed

theorem edge_correspondence_witness:
  "\<exists>layout. buildCityLayout (Some example_tree) (Some example_meta) = Inr layout \<and>
     length (connections layout) = 2 \<and>
     length (islands_of_type ''directory'' layout) = 2 \<and>
     c_from (connections layout ! 0) = (Num 0, Num 0, Num 0) \<and>
     c_to (connections layout ! 0) = i_position (islands_of_type ''directory'' layout ! 0) \<and>
     i_altitude (islands_of_type ''directory'' layout ! 0) = Number (Num 12) \<and>
     c_isPrimary (connections layout ! 0) \<and> c_thickness (connections layout ! 0) = 2 \<and>
     i_altitude (islands_of_type ''directory'' layout ! 1) = Number (Num 1) \<and>
     \<not> c_isPrimary (connections layout ! 1) \<and> c_thickness (connections layout ! 1) = 1"
proof -
  have ne: "example_tree \<noteq> []" by (simp add: example_tree_def)
  obtain layout where ret: "buildCityLayout (Some example_tree) (Some example_meta) = Inr layout"
    using example_returns by blast
  define ds where "ds = islands_of_type ''directory'' layout"
  note T = edge_correspondence [OF ne ret ds_def]
  have dn: "ds = directory_nodes example_tree"
    using directory_islands_primary [OF ne ret] by (simp add: ds_def)
  have n: "length (topDirs example_tree) = 2" by (simp add: topDirs_example_tree)
  have len: "length ds = 2" by (simp add: dn n)
  have conn: "length (connections layout) = 2" using T len by simp
  have a0: "i_altitude (ds ! 0) = Number (Num 12)"
    by (simp add: dn nth_directory_nodes n directory_node_fields topDirs_example_tree pop_def
        match_count_def getAltitude_src)
  have a1: "i_altitude (ds ! 1) = Number (Num 1)"
    by (simp add: dn nth_directory_nodes n directory_node_fields topDirs_example_tree pop_def
        match_count_def getAltitude_docs)
  have k0: "(0::nat) < length (connections layout)" and k1: "(1::nat) < length (connections layout)"
    by (simp_all add: conn)
  from T k0 have e0: "c_from (connections layout ! 0) = (Num 0, Num 0, Num 0)"
    "c_to (connections layout ! 0) = i_position (ds ! 0)"
    "c_isPrimary (connections layout ! 0) = greater (toNumber (i_altitude (ds ! 0))) 7"
    "c_thickness (connections layout ! 0) = (if greater (toNumber (i_altitude (ds ! 0))) 8 then 2 else 1)"
    by blast+
  from T k1 have e1:
    "c_isPrimary (connections layout ! 1) = greater (toNumber (i_altitude (ds ! 1))) 7"
    "c_thickness (connections layout ! 1) = (if greater (toNumber (i_altitude (ds ! 1))) 8 then 2 else 1)"
    by blast+
  have "c_isPrimary (connections layout ! 0)" "c_thickness (connections layout ! 0) = 2"
    "\<not> c_isPrimary (connections layout ! 1)" "c_thickness (connections layout ! 1) = 1"
    using e1 a1 by (simp_all add: e0 a0)
  with ret conn len e0(1,2) a0 a1 show ?thesis unfolding ds_def by blast
qed

section \<open>Positional ids\<close>

text \<open>
  What does hold: when no selected entry carries a \<open>sha\<close>, the positional ids
  \<open>dir-i\<close> and \<open>file-j\<close> and the fixed id of the core are pairwise different.
\<close>

lemma digit_inj: "a < 10 \<Longrightarrow> b < 10 \<Longrightarrow> digit a = digit b \<Longrightarrow> a = b"
proof -
  assume a: "a < 10" and b: "b < 10" and eq: "digit a = digit b"
  have d: "distinct ''0123456789''" by simp
  have "''0123456789'' ! a = ''0123456789'' ! b" using eq by (simp only: digit_def)
  moreover have "a < length ''0123456789''" "b < length ''0123456789''" using a b by simp_all
  ultimately show "a = b" using d by (simp only: nth_eq_iff_index_eq)
qed

lemma string_of_nat_nonempty: "string_of_nat n \<noteq> []"
  by (subst string_of_nat.simps) simp

lemma string_of_nat_inj: "string_of_nat m = string_of_nat n \<Longrightarrow> m = n"
proof (induction m arbitrary: n rule: string_of_nat.induct)
  case (1 m)
  show ?case
  proof (cases "m < 10")
    case small_m: True
    show ?thesis
    proof (cases "n < 10")
      case True
      then have "digit m = digit n"
        using "1.prems" small_m by (simp add: string_of_nat.simps [of m] string_of_nat.simps [of n])
      then show ?thesis using small_m True by (rule digit_inj [rotated 2])
    next
      case False
      then have "[digit m] = string_of_nat (n div 10) @ [digit (n mod 10)]"
        using "1.prems" small_m by (simp add: string_of_nat.simps [of m] string_of_nat.simps [of n])
      then show ?thesis using string_of_nat_nonempty [of "n div 10"] by simp
    qed
  next
    case big_m: False
    show ?thesis
    proof (cases "n < 10")
      case True
      then have "string_of_nat (m div 10) @ [digit (m mod 10)] = [digit n]"
        using "1.prems" big_m by (simp add: string_of_nat.simps [of m] string_of_nat.simps [of n])
      then show ?thesis using string_of_nat_nonempty [of "m div 10"] by simp
    next
      case False
      then have "string_of_nat (m div 10) @ [digit (m mod 10)] =
                 string_of_nat (n div 10) @ [digit (n mod 10)]"
        using "1.prems" big_m by (simp add: string_of_nat.simps [of m] string_of_nat.simps [of n])
      then have q: "string_of_nat (m div 10) = string_of_nat (n div 10)"
        and r: "digit (m mod 10) = digit (n mod 10)"
        by simp_all
      have "m div 10 = n div 10" using "1.IH" [OF big_m q] .
      moreover have "m mod 10 = n mod 10" using r by (intro digit_inj) simp_all
      ultimately show ?thesis by (metis div_mult_mod_eq)
    qed
  qed
qed

lemma island_ids_without_sha:
  fixes repoMeta :: "'m repo_meta_scheme option" and tree :: "'e tree_entry_scheme list"
  assumes "tree \<noteq> []" and "buildCityLayout (Some tree) repoMeta = Inr layout"
    and "\<forall>e \<in> set tree. e_sha e = None"
  shows "distinct (map i_id (islands layout))"
proof -
  obtain meta :: "'m repo_meta_scheme"
    where isl: "islands layout = core_station tree meta # directory_nodes tree @ file_nodes tree"
    using primary_layout [OF assms(1,2)] by blast
  have sha_d: "e_sha (topDirs tree ! k) = None" if "k < length (topDirs tree)" for k
  proof -
    have "topDirs tree ! k \<in> set (topDirs tree)" using that by simp
    then have "topDirs tree ! k \<in> set tree"
      unfolding topDirs_filter by (auto dest: in_set_takeD)
    then show ?thesis using assms(3) by simp
  qed
  have sha_f: "e_sha (topFiles tree ! k) = None" if "k < length (topFiles tree)" for k
  proof -
    have "topFiles tree ! k \<in> set (topFiles tree)" using that by simp
    then have "topFiles tree ! k \<in> set tree" by (simp add: topFiles_blobs)
    then show ?thesis using assms(3) by simp
  qed
  have ids_d: "map i_id (directory_nodes tree) =
      map (\<lambda>k. ''dir-'' @ string_of_nat k) [0 ..< length (topDirs tree)]"
    by (rule nth_equalityI) (simp_all add: nth_directory_nodes directory_node_fields sha_d)
  have ids_f: "map i_id (file_nodes tree) =
      map (\<lambda>k. ''file-'' @ string_of_nat k) [0 ..< length (topFiles tree)]"
    by (rule nth_equalityI) (simp_all add: nth_file_nodes file_node_fields sha_f)
  have "distinct (map (\<lambda>k. ''dir-'' @ string_of_nat k) [0 ..< length (topDirs tree)])"
    by (auto simp: distinct_map inj_on_def dest: string_of_nat_inj)
  moreover have "distinct (map (\<lambda>k. ''file-'' @ string_of_nat k) [0 ..< length (topFiles tree)])"
    by (auto simp: distinct_map inj_on_def dest: string_of_nat_inj)
  ultimately show ?thesis
    by (auto simp: isl ids_d ids_f core_station_fields)
qed

end
